theory Spec2Isabelle
  imports Complex_Main "HOL-Library.Word"
begin

section \<open>Values and outcomes\<close>

text \<open>
  The TypeScript sources work on JavaScript numbers. They are modelled as exact reals:
  rounding, infinities and NaN of IEEE doubles are outside the model. A read past the
  end of a JavaScript array yields \<open>undefined\<close> and never raises; it is modelled by
  \<open>nth_opt\<close> returning \<open>None\<close>.

  Outcomes are values of \<open>error + 'a\<close>. \<open>MetadataError\<close> is the exception class of
  the repository (with its message), \<open>LibraryError\<close> stands for an exception raised
  inside a helper that is a parameter of the model, \<open>RangeError\<close> for the one JavaScript
  raises when a non-integral number is converted to a BigInt. \<open>OutsideModel\<close> is not a
  raise: it marks the runs that leave what the model covers, namely an \<open>undefined\<close> value
  standing where a number belongs (the TypeScript goes on computing with NaN, which the
  reals do not have), a value of another JavaScript type coerced to a number or a string,
  and the IEEE 754 byte encodings. The model reports that outcome instead of inventing
  numbers.
\<close>

datatype error = MetadataError string | LibraryError string | RangeError | OutsideModel

definition nth_opt :: "'a list \<Rightarrow> nat \<Rightarrow> 'a option" where
  "nth_opt xs i = (if i < length xs then Some (xs ! i) else None)"

section \<open>The vector, matrix and rectangle toolkit\<close>

text \<open>
  \<open>Cartesian3\<close>, \<open>Matrix3\<close>, \<open>Rectangle\<close> and \<open>Math\<close> come from the \<open>cesium\<close> package
  that \<open>BoundingVolumeDerivation.ts\<close> imports (a dependency of the repository, version
  1.103 or later); the definitions below follow the documented behaviour of its
  functions. A \<open>Cartesian3\<close> is a triple, a \<open>Matrix3\<close> is the list of its nine entries in
  column-major order (entries 0..2 are the first column), as the package stores them.
\<close>

type_synonym Cartesian3 = "real \<times> real \<times> real"
type_synonym Matrix3 = "real list"

definition Cartesian3_unpack :: "real list \<Rightarrow> nat \<Rightarrow> Cartesian3 option" where
  "Cartesian3_unpack array startingIndex =
     (case (nth_opt array startingIndex, nth_opt array (startingIndex + 1),
            nth_opt array (startingIndex + 2)) of
        (Some a, Some b, Some c) \<Rightarrow> Some (a, b, c)
      | _ \<Rightarrow> None)"

definition Matrix3_unpack :: "real list \<Rightarrow> nat \<Rightarrow> Matrix3 option" where
  "Matrix3_unpack array startingIndex =
     (if startingIndex + 9 \<le> length array then Some (take 9 (drop startingIndex array))
      else None)"

definition Matrix3_multiplyByVector :: "Matrix3 \<Rightarrow> Cartesian3 \<Rightarrow> Cartesian3" where
  "Matrix3_multiplyByVector matrix cartesian =
     (case cartesian of (vX, vY, vZ) \<Rightarrow>
        (matrix ! 0 * vX + matrix ! 3 * vY + matrix ! 6 * vZ,
         matrix ! 1 * vX + matrix ! 4 * vY + matrix ! 7 * vZ,
         matrix ! 2 * vX + matrix ! 5 * vY + matrix ! 8 * vZ))"

definition Cartesian3_add :: "Cartesian3 \<Rightarrow> Cartesian3 \<Rightarrow> Cartesian3" where
  "Cartesian3_add left right =
     (case (left, right) of ((a, b, c), (d, e, f)) \<Rightarrow> (a + d, b + e, c + f))"

definition Matrix3_multiplyByScale :: "Matrix3 \<Rightarrow> Cartesian3 \<Rightarrow> Matrix3" where
  "Matrix3_multiplyByScale matrix scale =
     (case scale of (sx, sy, sz) \<Rightarrow>
        [matrix ! 0 * sx, matrix ! 1 * sx, matrix ! 2 * sx,
         matrix ! 3 * sy, matrix ! 4 * sy, matrix ! 5 * sy,
         matrix ! 6 * sz, matrix ! 7 * sz, matrix ! 8 * sz])"

definition Cartesian3_pack :: "Cartesian3 \<Rightarrow> real list" where
  "Cartesian3_pack cartesian = (case cartesian of (a, b, c) \<Rightarrow> [a, b, c])"

section \<open>Deriving a bounding box\<close>

text \<open>
  \<open>BoundingVolumeDerivation.deriveBoundingBox\<close>. The coordinates arrive as read from
  the coordinate array, so each of them may be \<open>undefined\<close>. The child box is the
  packed centre followed by the packed half-axes.
\<close>

definition deriveBoundingBox ::
  "real list \<Rightarrow> real option \<Rightarrow> real option \<Rightarrow> real option \<Rightarrow> real option
     \<Rightarrow> error + real list" where
  "deriveBoundingBox rootBox level x y z =
     (if level = Some 0 then Inr rootBox
      else
        case (Cartesian3_unpack rootBox 0, Matrix3_unpack rootBox 3, level, x, y) of
          (Some rootCenter, Some rootHalfAxes, Some l, Some xv, Some yv) \<Rightarrow>
            (let tileScale = 2 powr (- l);
                 modelSpaceX = - 1 + (2 * xv + 1) * tileScale;
                 modelSpaceY = - 1 + (2 * yv + 1) * tileScale;
                 modelSpaceZ = (case z of Some zv \<Rightarrow> - 1 + (2 * zv + 1) * tileScale
                                | None \<Rightarrow> 0);
                 scaleFactors = (tileScale, tileScale,
                                 (case z of Some zv \<Rightarrow> tileScale | None \<Rightarrow> 1));
                 center0 = (modelSpaceX, modelSpaceY, modelSpaceZ);
                 center1 = Matrix3_multiplyByVector rootHalfAxes center0;
                 center = Cartesian3_add center1 rootCenter;
                 halfAxes = Matrix3_multiplyByScale rootHalfAxes scaleFactors
             in Inr (Cartesian3_pack center @ halfAxes))
        | _ \<Rightarrow> Inl OutsideModel)"

section \<open>Deriving a bounding region\<close>

text \<open>
  A \<open>Rectangle\<close> is the tuple (west, south, east, north) in radians. Its width takes
  a rectangle that crosses the antimeridian into account. The remainder operator of
  JavaScript truncates its quotient towards zero; \<open>CesiumMath.mod\<close>,
  \<open>CesiumMath.zeroToTwoPi\<close> and \<open>CesiumMath.negativePiToPi\<close> are built on it.
\<close>

type_synonym Rectangle = "real \<times> real \<times> real \<times> real"

definition Rectangle_unpack :: "real list \<Rightarrow> nat \<Rightarrow> Rectangle option" where
  "Rectangle_unpack array startingIndex =
     (case (nth_opt array startingIndex, nth_opt array (startingIndex + 1),
            nth_opt array (startingIndex + 2), nth_opt array (startingIndex + 3)) of
        (Some west, Some south, Some east, Some north) \<Rightarrow> Some (west, south, east, north)
      | _ \<Rightarrow> None)"

definition TWO_PI :: real where
  "TWO_PI = 2 * pi"

definition EPSILON14 :: real where
  "EPSILON14 = 1 / 10 ^ 14"

definition Rectangle_width :: "Rectangle \<Rightarrow> real" where
  "Rectangle_width rectangle =
     (case rectangle of (west, south, east, north) \<Rightarrow>
        (if east < west then east + TWO_PI else east) - west)"

definition Rectangle_height :: "Rectangle \<Rightarrow> real" where
  "Rectangle_height rectangle =
     (case rectangle of (west, south, east, north) \<Rightarrow> north - south)"

definition jsTrunc :: "real \<Rightarrow> int" where
  "jsTrunc r = (if 0 \<le> r then \<lfloor>r\<rfloor> else \<lceil>r\<rceil>)"

definition jsRemainder :: "real \<Rightarrow> real \<Rightarrow> real" where
  "jsRemainder m n = m - n * of_int (jsTrunc (m / n))"

definition CesiumMath_mod :: "real \<Rightarrow> real \<Rightarrow> real" where
  "CesiumMath_mod m n =
     (if sgn m = sgn n \<and> \<bar>m\<bar> < \<bar>n\<bar> then m
      else jsRemainder (jsRemainder m n + n) n)"

definition zeroToTwoPi :: "real \<Rightarrow> real" where
  "zeroToTwoPi angle =
     (if 0 \<le> angle \<and> angle \<le> TWO_PI then angle
      else
        let md = CesiumMath_mod angle TWO_PI
        in if \<bar>md\<bar> < EPSILON14 \<and> \<bar>angle\<bar> > EPSILON14 then TWO_PI else md)"

definition negativePiToPi :: "real \<Rightarrow> real" where
  "negativePiToPi angle =
     (if - pi \<le> angle \<and> angle \<le> pi then angle
      else zeroToTwoPi (angle + pi) - pi)"

text \<open>
  \<open>BoundingVolumeDerivation.deriveBoundingRegion\<close>. At level 0 the root region is
  copied as it is; below, west and south are renormalised after the offset and east and
  north after adding the child's extent.
\<close>

definition deriveBoundingRegion ::
  "real list \<Rightarrow> real option \<Rightarrow> real option \<Rightarrow> real option \<Rightarrow> real option
     \<Rightarrow> error + real list" where
  "deriveBoundingRegion rootRegion level x y z =
     (if level = Some 0 then Inr rootRegion
      else
        case (Rectangle_unpack rootRegion 0, nth_opt rootRegion 4, nth_opt rootRegion 5,
              level, x, y) of
          (Some rectangle, Some rootMinimumHeight, Some rootMaximumHeight,
           Some l, Some xv, Some yv) \<Rightarrow>
            (let tileScale = 2 powr (- l);
                 childWidth = tileScale * Rectangle_width rectangle;
                 west = negativePiToPi (fst rectangle + xv * childWidth);
                 east = negativePiToPi (west + childWidth);
                 childHeight = tileScale * Rectangle_height rectangle;
                 south = negativePiToPi (fst (snd rectangle) + yv * childHeight);
                 north = negativePiToPi (south + childHeight);
                 childThickness = tileScale * (rootMaximumHeight - rootMinimumHeight);
                 minimumHeight = (case z of Some zv \<Rightarrow> rootMinimumHeight + zv * childThickness
                                  | None \<Rightarrow> rootMinimumHeight);
                 maximumHeight = (case z of Some zv \<Rightarrow> minimumHeight + childThickness
                                  | None \<Rightarrow> rootMaximumHeight)
             in Inr [west, south, east, north, minimumHeight, maximumHeight])
        | _ \<Rightarrow> Inl OutsideModel)"

section \<open>Deriving an S2 cell volume\<close>

text \<open>
  \<open>S2Cell\<close> and \<open>HilbertOrder\<close> are not part of the sources at hand, so the four
  functions that \<open>deriveBoundingVolumeS2\<close> calls are parameters of the model; each may
  raise. Cell identifiers and Hilbert positions are BigInt values, hence \<open>int\<close>; the
  shift \<open>>> 61n\<close> of a BigInt is the floor division by \<open>2 ^ 61\<close>.
\<close>

record BoundingVolumeS2 =
  token :: string
  minimumHeight :: real
  maximumHeight :: real

record S2Functions =
  getIdFromToken :: "string \<Rightarrow> error + int"
  encode2D :: "real \<Rightarrow> real \<Rightarrow> real \<Rightarrow> error + int"
  fromFacePositionLevel :: "int \<Rightarrow> int \<Rightarrow> real \<Rightarrow> error + int"
  getTokenFromId :: "int \<Rightarrow> error + string"

definition faceOf :: "int \<Rightarrow> int" where
  "faceOf baseCellId = drop_bit 61 baseCellId"

definition hilbertPosition :: "S2Functions \<Rightarrow> int \<Rightarrow> real \<Rightarrow> real \<Rightarrow> real \<Rightarrow> error + int" where
  "hilbertPosition lib face l xv yv =
     (if face mod 2 = 0 then encode2D lib l xv yv else encode2D lib l yv xv)"

definition splitHeights :: "BoundingVolumeS2 \<Rightarrow> real option \<Rightarrow> real \<times> real" where
  "splitHeights boundingVolumeS2 z =
     (case z of
        Some zv \<Rightarrow>
          (let lower = (jsTrunc zv mod 2 = 0);
               midpointHeight =
                 (maximumHeight boundingVolumeS2 + minimumHeight boundingVolumeS2) / 2
           in (if lower then minimumHeight boundingVolumeS2 else midpointHeight,
               if lower then midpointHeight else maximumHeight boundingVolumeS2))
      | None \<Rightarrow> (minimumHeight boundingVolumeS2, maximumHeight boundingVolumeS2))"

definition deriveBoundingVolumeS2 ::
  "S2Functions \<Rightarrow> BoundingVolumeS2 \<Rightarrow> real option \<Rightarrow> real option \<Rightarrow> real option
     \<Rightarrow> real option \<Rightarrow> error + BoundingVolumeS2" where
  "deriveBoundingVolumeS2 lib boundingVolumeS2 level x y z =
     (if level = Some 0 then Inr boundingVolumeS2
      else
        case getIdFromToken lib (token boundingVolumeS2) of
          Inl e \<Rightarrow> Inl e
        | Inr baseCellId \<Rightarrow>
            (case (level, x, y) of
               (Some l, Some xv, Some yv) \<Rightarrow>
                 (case hilbertPosition lib (faceOf baseCellId) l xv yv of
                    Inl e \<Rightarrow> Inl e
                  | Inr position \<Rightarrow>
                      (case fromFacePositionLevel lib (faceOf baseCellId) position l of
                         Inl e \<Rightarrow> Inl e
                       | Inr cellId \<Rightarrow>
                           (case getTokenFromId lib cellId of
                              Inl e \<Rightarrow> Inl e
                            | Inr t \<Rightarrow>
                                Inr \<lparr>token = t,
                                     minimumHeight = fst (splitHeights boundingVolumeS2 z),
                                     maximumHeight = snd (splitHeights boundingVolumeS2 z)\<rparr>)))
             | _ \<Rightarrow> Inl OutsideModel))"

text \<open>
  A sample of the four functions, used to run the derivation on concrete cells: the
  tokens of the root cells of faces 0 and 1, the Hilbert curve of level 1, the cell
  identifier of a level-1 cell (face, position, then the marker bit), and the tokens of
  the two cells the examples reach.
\<close>

definition sampleS2Functions :: S2Functions where
  "sampleS2Functions =
     \<lparr>getIdFromToken =
        (\<lambda>t. if t = ''1'' then Inr (2 ^ 60)
             else if t = ''3'' then Inr (3 * 2 ^ 60)
             else Inl (LibraryError ''token'')),
      encode2D =
        (\<lambda>l xv yv.
           if l = 1 \<and> xv = 0 \<and> yv = 0 then Inr 0
           else if l = 1 \<and> xv = 0 \<and> yv = 1 then Inr 1
           else if l = 1 \<and> xv = 1 \<and> yv = 1 then Inr 2
           else if l = 1 \<and> xv = 1 \<and> yv = 0 then Inr 3
           else Inl (LibraryError ''coordinates'')),
      fromFacePositionLevel =
        (\<lambda>face position l.
           if l = 1 then Inr (face * 2 ^ 61 + position * 2 ^ 59 + 2 ^ 58)
           else Inl (LibraryError ''level'')),
      getTokenFromId =
        (\<lambda>cellId. if cellId = 2 ^ 61 + 2 ^ 59 + 2 ^ 58 then Inr ''2c''
                  else if cellId = 3 * 2 ^ 59 + 2 ^ 58 then Inr ''1c''
                  else Inl (LibraryError ''cell''))\<rparr>"

section \<open>Dispatch on the root volume\<close>

text \<open>
  A \<open>BoundingVolume\<close> carries optional \<open>box\<close>, \<open>region\<close> and \<open>sphere\<close> arrays and an
  optional dictionary of extensions; the only extension the derivation reads is the S2
  one, whose value it treats as a \<open>BoundingVolumeS2\<close>. The result of
  \<open>deriveBoundingVolume\<close> is \<open>Inr None\<close> where the TypeScript returns \<open>undefined\<close>, and
  otherwise a new volume with the one member that the TypeScript object literal has.
\<close>

record BoundingVolume =
  box :: "real list option"
  region :: "real list option"
  sphere :: "real list option"
  extensions :: "(string \<rightharpoonup> BoundingVolumeS2) option"

definition S2_EXTENSION :: string where
  "S2_EXTENSION = ''3DTILES_bounding_volume_S2''"

definition extensionOf :: "BoundingVolume \<Rightarrow> string \<Rightarrow> BoundingVolumeS2 option" where
  "extensionOf json extensionName =
     (case extensions json of None \<Rightarrow> None | Some exts \<Rightarrow> exts extensionName)"

definition hasExtension :: "BoundingVolume \<Rightarrow> string \<Rightarrow> bool" where
  "hasExtension json extensionName = (extensionOf json extensionName \<noteq> None)"

definition deriveBoundingVolume ::
  "S2Functions \<Rightarrow> BoundingVolume \<Rightarrow> real list \<Rightarrow> error + BoundingVolume option" where
  "deriveBoundingVolume lib rootBoundingVolume implicitCoordinates =
     (let level = nth_opt implicitCoordinates 0;
          x = nth_opt implicitCoordinates 1;
          y = nth_opt implicitCoordinates 2;
          z = (if length implicitCoordinates > 3 then nth_opt implicitCoordinates 3
               else None)
      in
        case extensionOf rootBoundingVolume S2_EXTENSION of
          Some boundingVolumeS2 \<Rightarrow>
            (case deriveBoundingVolumeS2 lib boundingVolumeS2 level x y z of
               Inl e \<Rightarrow> Inl e
             | Inr childBoundingVolumeS2 \<Rightarrow> Inr (Some \<lparr>box = None, region = None, sphere = None,
                             extensions =
                               Some [S2_EXTENSION \<mapsto> childBoundingVolumeS2]\<rparr>))
        | None \<Rightarrow>
            (case region rootBoundingVolume of
               Some rootRegion \<Rightarrow>
                 (case deriveBoundingRegion rootRegion level x y z of
                    Inl e \<Rightarrow> Inl e
                  | Inr childRegion \<Rightarrow> Inr (Some \<lparr>box = None, region = Some childRegion,
                                  sphere = None, extensions = None\<rparr>))
             | None \<Rightarrow>
                 (case box rootBoundingVolume of
                    Some rootBox \<Rightarrow>
                      (case deriveBoundingBox rootBox level x y z of
                         Inl e \<Rightarrow> Inl e
                       | Inr childBox \<Rightarrow> Inr (Some \<lparr>box = Some childBox, region = None,
                                       sphere = None, extensions = None\<rparr>))
                  | None \<Rightarrow> Inr None)))"

section \<open>The table builder\<close>

text \<open>
  \<open>BinaryPropertyTables\<close> packs the values of one column into byte buffers. The values
  are JSON-like; a string is represented by the sequence of its UTF-8 bytes, so its
  length is the length of its encoding.
\<close>

datatype json = JNum real | JStr string | JBool bool | JArr "json list"

type_synonym byte = "8 word"

definition defaultValue :: "'a option \<Rightarrow> 'a \<Rightarrow> 'a" where
  "defaultValue a b = (case a of None \<Rightarrow> b | Some v \<Rightarrow> v)"

definition flatten :: "json list \<Rightarrow> json list" where
  "flatten vs = vs"

fun flattenFully :: "json \<Rightarrow> json list" where
  "flattenFully (JArr vs) = concat (map flattenFully vs)"
| "flattenFully v = [v]"

text \<open>
  The typed arrays of JavaScript store an integer in the byte order of the platform,
  which is little-endian on the platforms Node.js runs on: \<open>leBytes n v\<close> are the \<open>n\<close> low
  bytes of \<open>v\<close>, so a value out of the range of the element type wraps around. A number
  is truncated towards zero first; a BigInt array takes \<open>BigInt(v)\<close>, which raises for a
  number that is not integral.
\<close>

fun leBytes :: "nat \<Rightarrow> int \<Rightarrow> byte list" where
  "leBytes 0 v = []"
| "leBytes (Suc n) v = word_of_int v # leBytes n (v div 256)"

definition toIntegerBytes :: "nat \<Rightarrow> json \<Rightarrow> error + byte list" where
  "toIntegerBytes n v =
     (case v of
        JNum r \<Rightarrow> Inr (leBytes n (jsTrunc r))
      | JBool b \<Rightarrow> Inr (leBytes n (if b then 1 else 0))
      | _ \<Rightarrow> Inl OutsideModel)"

definition toBigIntBytes :: "json \<Rightarrow> error + byte list" where
  "toBigIntBytes v =
     (case v of
        JNum r \<Rightarrow> (if r = of_int \<lfloor>r\<rfloor> then Inr (leBytes 8 \<lfloor>r\<rfloor>) else Inl RangeError)
      | JBool b \<Rightarrow> Inr (leBytes 8 (if b then 1 else 0))
      | _ \<Rightarrow> Inl OutsideModel)"

fun packAll :: "(json \<Rightarrow> error + byte list) \<Rightarrow> json list \<Rightarrow> error + byte list" where
  "packAll f [] = Inr []"
| "packAll f (v # vs) =
     (case f v of
        Inl e \<Rightarrow> Inl e
      | Inr bs \<Rightarrow> (case packAll f vs of Inl e \<Rightarrow> Inl e | Inr rest \<Rightarrow> Inr (bs @ rest)))"

definition createBufferInternal :: "json list \<Rightarrow> string option \<Rightarrow> error + byte list" where
  "createBufferInternal vs componentType =
     (let flatValues = flattenFully (JArr vs)
      in case componentType of
           None \<Rightarrow> Inl (MetadataError ''undefined is not a valid component type'')
         | Some ct \<Rightarrow>
             if ct = ''INT8'' then packAll (toIntegerBytes 1) flatValues
             else if ct = ''UINT8'' then packAll (toIntegerBytes 1) flatValues
             else if ct = ''INT16'' then packAll (toIntegerBytes 2) flatValues
             else if ct = ''UINT16'' then packAll (toIntegerBytes 2) flatValues
             else if ct = ''INT32'' then packAll (toIntegerBytes 4) flatValues
             else if ct = ''UINT32'' then packAll (toIntegerBytes 4) flatValues
             else if ct = ''INT64'' then packAll toBigIntBytes flatValues
             else if ct = ''UINT64'' then packAll toBigIntBytes flatValues
             else if ct = ''FLOAT32'' then Inl OutsideModel
             else if ct = ''FLOAT64'' then Inl OutsideModel
             else Inl (MetadataError (ct @ '' is not a valid component type'')))"

definition createBuffer :: "json list \<Rightarrow> string option \<Rightarrow> error + byte list" where
  "createBuffer vs componentType = createBufferInternal vs componentType"

fun joinStrings :: "json list \<Rightarrow> error + string" where
  "joinStrings [] = Inr []"
| "joinStrings (JStr s # vs) =
     (case joinStrings vs of Inl e \<Rightarrow> Inl e | Inr rest \<Rightarrow> Inr (s @ rest))"
| "joinStrings (v # vs) = Inl OutsideModel"

definition encodeUtf8 :: "string \<Rightarrow> byte list" where
  "encodeUtf8 s = map (\<lambda>c. of_nat (of_char c)) s"

definition createStringBuffer :: "json list \<Rightarrow> error + byte list" where
  "createStringBuffer inputValues =
     (case joinStrings (flattenFully (JArr inputValues)) of
        Inl e \<Rightarrow> Inl e
      | Inr joined \<Rightarrow> Inr (encodeUtf8 joined))"

definition truthy :: "json \<Rightarrow> bool" where
  "truthy v =
     (case v of JNum r \<Rightarrow> r \<noteq> 0 | JStr s \<Rightarrow> s \<noteq> [] | JBool b \<Rightarrow> b | JArr vs \<Rightarrow> True)"

fun booleanLoop :: "json list \<Rightarrow> nat \<Rightarrow> byte list \<Rightarrow> byte list" where
  "booleanLoop [] i typedArray = typedArray"
| "booleanLoop (v # vs) i typedArray =
     booleanLoop vs (i + 1)
       (if truthy v
        then typedArray[i div 8 := or (typedArray ! (i div 8)) (push_bit (i mod 8) 1)]
        else typedArray)"

definition createBooleanBuffer :: "json list \<Rightarrow> error + byte list" where
  "createBooleanBuffer inputValues =
     (let vs = flattenFully (JArr inputValues)
      in Inr (booleanLoop vs 0 (replicate ((length vs + 7) div 8) 0)))"

fun indexOf :: "'a list \<Rightarrow> 'a \<Rightarrow> int" where
  "indexOf [] v = - 1"
| "indexOf (x # xs) v =
     (if x = v then 0 else (let r = indexOf xs v in if r < 0 then - 1 else r + 1))"

text \<open>
  Of a \<open>ClassProperty\<close>, a \<open>MetadataEnum\<close> and a \<open>Schema\<close> the records keep the fields
  that \<open>createValuesBuffer\<close> reads; the fields \<open>value\<close> of an \<open>EnumValue\<close> and
  \<open>values\<close> of a \<open>MetadataEnum\<close> are called \<open>enumValue\<close> and \<open>enumValues\<close> here.
  \<open>indexOf\<close> is the method of JavaScript arrays: the first position of a value, or
  \<open>-1\<close> when it does not occur.
\<close>

record EnumValue =
  name :: string
  enumValue :: int

record MetadataEnum =
  valueType :: "string option"
  enumValues :: "EnumValue list"

record Schema =
  enums :: "(string \<rightharpoonup> MetadataEnum) option"

record ClassProperty =
  type :: string
  componentType :: "string option"
  enumType :: "string option"

definition createValuesBuffer ::
  "ClassProperty \<Rightarrow> Schema \<Rightarrow> json list \<Rightarrow> error + byte list" where
  "createValuesBuffer classProperty schema vs =
     (let flattenedValues = flatten vs
      in if type classProperty = ''STRING'' then createStringBuffer flattenedValues
         else if type classProperty = ''BOOLEAN'' then createBooleanBuffer flattenedValues
         else
           case enumType classProperty of
             Some et \<Rightarrow>
               (case enums schema of
                  None \<Rightarrow> Inl (MetadataError ''The schema does not define any enums'')
                | Some metadataEnums \<Rightarrow>
                    (case metadataEnums et of
                       None \<Rightarrow> Inl (MetadataError (''The schema does not define enum '' @ et))
                     | Some metadataEnum \<Rightarrow>
                         (let valueNames = map name (enumValues metadataEnum)
                          in createBuffer
                               (map (\<lambda>valueName.
                                       JNum (of_int (indexOf (map JStr valueNames) valueName)))
                                  (flattenFully (JArr flattenedValues)))
                               (Some (defaultValue (valueType metadataEnum) ''UINT16'')))))
           | None \<Rightarrow> createBuffer flattenedValues (componentType classProperty))"

text \<open>
  The two offset buffers run the same loop: entry \<open>i\<close> is the sum of the sizes of the
  values before \<open>i\<close>, and one more entry holds the total. For the array offsets the size
  of a row is the length of the array; for the string offsets it is the number of UTF-8
  bytes of a string.
\<close>

fun offsetsLoop :: "(json \<Rightarrow> nat option) \<Rightarrow> json list \<Rightarrow> nat \<Rightarrow> error + nat list" where
  "offsetsLoop sizeOf [] offset = Inr [offset]"
| "offsetsLoop sizeOf (v # vs) offset =
     (case sizeOf v of
        None \<Rightarrow> Inl OutsideModel
      | Some n \<Rightarrow>
          (case offsetsLoop sizeOf vs (offset + n) of
             Inl e \<Rightarrow> Inl e
           | Inr rest \<Rightarrow> Inr (offset # rest)))"

definition encodedLength :: "json \<Rightarrow> nat option" where
  "encodedLength v = (case v of JStr s \<Rightarrow> Some (length (encodeUtf8 s)) | _ \<Rightarrow> None)"

definition arrayLength :: "json \<Rightarrow> nat option" where
  "arrayLength v = (case v of JArr vs \<Rightarrow> Some (length vs) | _ \<Rightarrow> None)"

definition createStringOffsetBuffer :: "json list \<Rightarrow> string option \<Rightarrow> error + byte list" where
  "createStringOffsetBuffer vs offsetType =
     (case offsetsLoop encodedLength (flattenFully (JArr vs)) 0 of
        Inl e \<Rightarrow> Inl e
      | Inr offsets \<Rightarrow>
          createBuffer (map (\<lambda>n. JNum (of_nat n)) offsets)
            (Some (defaultValue offsetType ''UINT32'')))"

definition createArrayOffsetBuffer :: "json list \<Rightarrow> string option \<Rightarrow> error + byte list" where
  "createArrayOffsetBuffer vs offsetType =
     (case offsetsLoop arrayLength vs 0 of
        Inl e \<Rightarrow> Inl e
      | Inr offsets \<Rightarrow>
          createBuffer (map (\<lambda>n. JNum (of_nat n)) offsets)
            (Some (defaultValue offsetType ''UINT32'')))"

text \<open>
  Modelled from the spec: the numeric primitive decode of an unsigned kind
  (\<open>NumericBuffers\<close> is not among the sources at hand). The entry at an element index
  is read from \<open>width\<close> bytes at \<open>index * width\<close>, least significant byte first.
\<close>

fun leValue :: "byte list \<Rightarrow> nat" where
  "leValue [] = 0"
| "leValue (b # bs) = unat b + 256 * leValue bs"

definition entryAt :: "nat \<Rightarrow> byte list \<Rightarrow> nat \<Rightarrow> nat" where
  "entryAt width buffer index = leValue (take width (drop (index * width) buffer))"

definition unsignedWidth :: "string option \<Rightarrow> nat option" where
  "unsignedWidth offsetType =
     (let ot = defaultValue offsetType ''UINT32''
      in if ot = ''UINT8'' then Some 1
         else if ot = ''UINT16'' then Some 2
         else if ot = ''UINT32'' then Some 4
         else if ot = ''UINT64'' then Some 8
         else None)"

section \<open>The row facade of a property table\<close>

text \<open>
  \<open>BinaryMetadataEntityModel\<close> binds a \<open>PropertyTableModel\<close>, a row index and a
  dictionary from semantics to property ids. \<open>PropertyTableModel\<close> is an interface: its
  three lookups are the fields of a record, and a \<open>PropertyModel\<close> is its single
  operation, the read of a row, which may raise. Of a \<open>PropertyTableProperty\<close> the facade
  reads the two overrides \<open>offset\<close> and \<open>scale\<close>. \<open>MetadataValues.processValue\<close> is a
  parameter \<open>processValue\<close> of the model.
\<close>

record 'v PropertyTableProperty =
  offset :: "'v option"
  scale :: "'v option"

record ('cp, 'v) PropertyTableModel =
  getClassProperty :: "string \<Rightarrow> 'cp option"
  getPropertyTableProperty :: "string \<Rightarrow> 'v PropertyTableProperty option"
  getPropertyModel :: "string \<Rightarrow> (int \<Rightarrow> error + 'v) option"

record ('cp, 'v) BinaryMetadataEntityModel =
  propertyTableModel :: "('cp, 'v) PropertyTableModel"
  entityIndex :: int
  semanticToPropertyId :: "string \<rightharpoonup> string"

definition getPropertyValue ::
  "('cp \<Rightarrow> 'v option \<Rightarrow> 'v option \<Rightarrow> 'v \<Rightarrow> error + 'v)
     \<Rightarrow> ('cp, 'v) BinaryMetadataEntityModel \<Rightarrow> string \<Rightarrow> error + 'v" where
  "getPropertyValue processValue this propertyId =
     (case getClassProperty (propertyTableModel this) propertyId of
        None \<Rightarrow>
          Inl (MetadataError (''The class does not define a property '' @ propertyId))
      | Some classProperty \<Rightarrow>
          (case getPropertyTableProperty (propertyTableModel this) propertyId of
             None \<Rightarrow>
               Inl (MetadataError
                      (''The property table does not define a property '' @ propertyId))
           | Some propertyTableProperty \<Rightarrow>
               (case getPropertyModel (propertyTableModel this) propertyId of
                  None \<Rightarrow>
                    Inl (MetadataError
                           (''The property table does not define a property model for ''
                              @ propertyId))
                | Some propertyModel \<Rightarrow>
                    (case propertyModel (entityIndex this) of
                       Inl e \<Rightarrow> Inl e
                     | Inr v \<Rightarrow>
                         processValue classProperty (offset propertyTableProperty)
                           (scale propertyTableProperty) v))))"

definition getPropertyValueBySemantic ::
  "('cp \<Rightarrow> 'v option \<Rightarrow> 'v option \<Rightarrow> 'v \<Rightarrow> error + 'v)
     \<Rightarrow> ('cp, 'v) BinaryMetadataEntityModel \<Rightarrow> string \<Rightarrow> error + 'v option" where
  "getPropertyValueBySemantic processValue this semantic =
     (case semanticToPropertyId this semantic of
        None \<Rightarrow> Inr None
      | Some propertyId \<Rightarrow>
          (case getPropertyValue processValue this propertyId of
             Inl e \<Rightarrow> Inl e
           | Inr v \<Rightarrow> Inr (Some v)))"

text \<open>
  A sample row facade, used to run the lookups on concrete inputs: the class defines
  \<open>height\<close>, \<open>depth\<close> and \<open>age\<close>, the table defines \<open>height\<close> (with an offset of 10) and
  \<open>age\<close>, and only \<open>height\<close> has a property model, with the two rows 7 and 9. The sample
  post-processing applies the scale, then the offset.
\<close>

definition sampleProcessValue :: "unit \<Rightarrow> int option \<Rightarrow> int option \<Rightarrow> int \<Rightarrow> error + int" where
  "sampleProcessValue classProperty offsetOverride scaleOverride v =
     Inr ((case scaleOverride of Some k \<Rightarrow> v * k | None \<Rightarrow> v) +
          (case offsetOverride of Some d \<Rightarrow> d | None \<Rightarrow> 0))"

definition sampleEntityModel :: "(unit, int) BinaryMetadataEntityModel" where
  "sampleEntityModel =
     \<lparr>propertyTableModel =
        \<lparr>getClassProperty =
           (\<lambda>p. if p = ''height'' \<or> p = ''depth'' \<or> p = ''age'' then Some () else None),
         getPropertyTableProperty =
           (\<lambda>p. if p = ''height'' then Some \<lparr>offset = Some 10, scale = None\<rparr>
                else if p = ''age'' then Some \<lparr>offset = None, scale = None\<rparr>
                else None),
         getPropertyModel =
           (\<lambda>p. if p = ''height''
                then Some (\<lambda>i. if i = 0 then Inr 7 else if i = 1 then Inr 9
                                else Inl (LibraryError ''ERR_OUT_OF_RANGE''))
                else None)\<rparr>,
      entityIndex = 1,
      semanticToPropertyId = [''HEIGHT'' \<mapsto> ''height'']\<rparr>"

section \<open>Facts about the toolkit\<close>

lemma list_of_length_12:
  "length (xs :: real list) = 12 \<Longrightarrow>
     \<exists>a0 a1 a2 a3 a4 a5 a6 a7 a8 a9 a10 a11.
       xs = [a0, a1, a2, a3, a4, a5, a6, a7, a8, a9, a10, a11]"
  by (auto simp: length_Suc_conv eval_nat_numeral)


lemma jsTrunc_of_int: "jsTrunc (of_int k) = k"
  by (simp add: jsTrunc_def)

lemma jsTrunc_of_nat: "jsTrunc (of_nat n) = int n"
  using jsTrunc_of_int [of "int n"] by simp

lemma jsTrunc_numerals:
  "jsTrunc 0 = 0" "jsTrunc 1 = 1" "jsTrunc (- 1) = - 1"
  "jsTrunc (numeral k) = numeral k" "jsTrunc (- numeral k) = - numeral k"
  using jsTrunc_of_int [of 0] jsTrunc_of_int [of 1] jsTrunc_of_int [of "- 1"]
    jsTrunc_of_int [of "numeral k"] jsTrunc_of_int [of "- numeral k"]
  by simp_all






section \<open>The derivation at level 0\<close>

lemma deriveBoundingBox_level0: "deriveBoundingBox rootBox (Some 0) x y z = Inr rootBox"
  by (simp add: deriveBoundingBox_def)

lemma deriveBoundingRegion_level0:
  "deriveBoundingRegion rootRegion (Some 0) x y z = Inr rootRegion"
  by (simp add: deriveBoundingRegion_def)

lemma deriveBoundingVolumeS2_level0: "deriveBoundingVolumeS2 lib s2 (Some 0) x y z = Inr s2"
  by (simp add: deriveBoundingVolumeS2_def)

section \<open>The dispatch\<close>

lemma coordinate_z:
  "(if length coords > 3 then nth_opt coords 3 else None) = nth_opt coords 3"
  by (simp add: nth_opt_def)

lemma extensionOf_S2:
  "extensionOf rootVolume S2_EXTENSION =
     (case extensions rootVolume of None \<Rightarrow> None | Some exts \<Rightarrow> exts ''3DTILES_bounding_volume_S2'')"
  by (simp add: extensionOf_def S2_EXTENSION_def)

lemma deriveBoundingVolume_with_S2:
  assumes "extensionOf rootVolume S2_EXTENSION = Some s2"
  shows "deriveBoundingVolume lib rootVolume coords =
        (case deriveBoundingVolumeS2 lib s2 (nth_opt coords 0) (nth_opt coords 1)
                (nth_opt coords 2) (nth_opt coords 3) of
           Inl e \<Rightarrow> Inl e
         | Inr c \<Rightarrow> Inr (Some \<lparr>box = None, region = None, sphere = None, extensions = Some [''3DTILES_bounding_volume_S2'' \<mapsto> c]\<rparr>))"
  using assms
  by (simp add: deriveBoundingVolume_def Let_def coordinate_z S2_EXTENSION_def
      split: sum.split)

lemma deriveBoundingVolume_with_region:
  assumes "extensionOf rootVolume S2_EXTENSION = None" and "region rootVolume = Some rootRegion"
  shows "deriveBoundingVolume lib rootVolume coords =
        (case deriveBoundingRegion rootRegion (nth_opt coords 0) (nth_opt coords 1)
                (nth_opt coords 2) (nth_opt coords 3) of
           Inl e \<Rightarrow> Inl e
         | Inr c \<Rightarrow> Inr (Some \<lparr>box = None, region = Some c, sphere = None, extensions = None\<rparr>))"
  using assms
  by (simp add: deriveBoundingVolume_def Let_def coordinate_z split: sum.split)

lemma deriveBoundingVolume_with_box:
  assumes "extensionOf rootVolume S2_EXTENSION = None" and "region rootVolume = None"
    and "box rootVolume = Some rootBox"
  shows "deriveBoundingVolume lib rootVolume coords =
        (case deriveBoundingBox rootBox (nth_opt coords 0) (nth_opt coords 1)
                (nth_opt coords 2) (nth_opt coords 3) of
           Inl e \<Rightarrow> Inl e
         | Inr c \<Rightarrow> Inr (Some \<lparr>box = Some c, region = None, sphere = None, extensions = None\<rparr>))"
  using assms
  by (simp add: deriveBoundingVolume_def Let_def coordinate_z split: sum.split)

lemma deriveBoundingVolume_without_shape:
  assumes "extensionOf rootVolume S2_EXTENSION = None" and "region rootVolume = None"
    and "box rootVolume = None"
  shows "deriveBoundingVolume lib rootVolume coords = Inr None"
  using assms by (simp add: deriveBoundingVolume_def Let_def)

lemma nth_opt_level0: "nth_opt (0 # rest) 0 = Some (0 :: real)"
  by (simp add: nth_opt_def)

lemma deriveBoundingVolume_level0_S2:
  assumes "extensionOf rootVolume S2_EXTENSION = Some s2"
  shows "deriveBoundingVolume lib rootVolume (0 # rest) = Inr (Some \<lparr>box = None, region = None, sphere = None, extensions = Some [''3DTILES_bounding_volume_S2'' \<mapsto> s2]\<rparr>)"
  by (simp add: deriveBoundingVolume_with_S2 [OF assms] nth_opt_level0
      deriveBoundingVolumeS2_level0)

lemma deriveBoundingVolume_level0_region:
  assumes "extensionOf rootVolume S2_EXTENSION = None" and "region rootVolume = Some r"
  shows "deriveBoundingVolume lib rootVolume (0 # rest) = Inr (Some \<lparr>box = None, region = Some r, sphere = None, extensions = None\<rparr>)"
  by (simp add: deriveBoundingVolume_with_region [OF assms] nth_opt_level0
      deriveBoundingRegion_level0)

lemma deriveBoundingVolume_level0_box:
  assumes "extensionOf rootVolume S2_EXTENSION = None" and "region rootVolume = None"
    and "box rootVolume = Some b"
  shows "deriveBoundingVolume lib rootVolume (0 # rest) = Inr (Some \<lparr>box = Some b, region = None, sphere = None, extensions = None\<rparr>)"
  by (simp add: deriveBoundingVolume_with_box [OF assms] nth_opt_level0
      deriveBoundingBox_level0)

lemma deriveBoundingVolume_level0_rest:
  "deriveBoundingVolume lib rootVolume (0 # rest) = deriveBoundingVolume lib rootVolume [0]"
proof (cases "extensionOf rootVolume S2_EXTENSION")
  case (Some s2)
  then show ?thesis by (simp add: deriveBoundingVolume_level0_S2)
next
  case noS2: None
  show ?thesis
  proof (cases "region rootVolume")
    case (Some r)
    then show ?thesis using noS2 by (simp add: deriveBoundingVolume_level0_region)
  next
    case noRegion: None
    show ?thesis
    proof (cases "box rootVolume")
      case (Some b)
      then show ?thesis using noS2 noRegion by (simp add: deriveBoundingVolume_level0_box)
    next
      case None
      then show ?thesis using noS2 noRegion by (simp add: deriveBoundingVolume_without_shape)
    qed
  qed
qed

lemma deriveBoundingVolume_level0_same_root:
  assumes "deriveBoundingVolume lib rootVolume (0 # rest) = Inr (Some rootVolume)"
  shows "(\<exists>b. rootVolume = \<lparr>box = Some b, region = None, sphere = None, extensions = None\<rparr>) \<or>
         (\<exists>r. rootVolume = \<lparr>box = None, region = Some r, sphere = None, extensions = None\<rparr>) \<or>
         (\<exists>s2. rootVolume = \<lparr>box = None, region = None, sphere = None, extensions = Some [''3DTILES_bounding_volume_S2'' \<mapsto> s2]\<rparr>)"
proof (cases "extensionOf rootVolume S2_EXTENSION")
  case (Some s2)
  from assms have "rootVolume = \<lparr>box = None, region = None, sphere = None, extensions = Some [''3DTILES_bounding_volume_S2'' \<mapsto> s2]\<rparr>"
    by (simp add: deriveBoundingVolume_level0_S2 [OF Some])
  then show ?thesis by blast
next
  case noS2: None
  show ?thesis
  proof (cases "region rootVolume")
    case (Some r)
    from assms have "rootVolume = \<lparr>box = None, region = Some r, sphere = None, extensions = None\<rparr>"
      by (simp add: deriveBoundingVolume_level0_region [OF noS2 Some])
    then show ?thesis by blast
  next
    case noRegion: None
    show ?thesis
    proof (cases "box rootVolume")
      case (Some b)
      from assms have "rootVolume = \<lparr>box = Some b, region = None, sphere = None, extensions = None\<rparr>"
        by (simp add: deriveBoundingVolume_level0_box [OF noS2 noRegion Some])
      then show ?thesis by blast
    next
      case None
      then show ?thesis
        using assms noS2 noRegion by (simp add: deriveBoundingVolume_without_shape)
    qed
  qed
qed

lemma deriveBoundingVolume_level0_single:
  "deriveBoundingVolume lib \<lparr>box = Some b, region = None, sphere = None, extensions = None\<rparr> (0 # rest) = Inr (Some \<lparr>box = Some b, region = None, sphere = None, extensions = None\<rparr>)"
  "deriveBoundingVolume lib \<lparr>box = None, region = Some r, sphere = None, extensions = None\<rparr> (0 # rest) = Inr (Some \<lparr>box = None, region = Some r, sphere = None, extensions = None\<rparr>)"
  "deriveBoundingVolume lib \<lparr>box = None, region = None, sphere = None, extensions = Some [''3DTILES_bounding_volume_S2'' \<mapsto> s2]\<rparr> (0 # rest) = Inr (Some \<lparr>box = None, region = None, sphere = None, extensions = Some [''3DTILES_bounding_volume_S2'' \<mapsto> s2]\<rparr>)"
proof -
  show "deriveBoundingVolume lib \<lparr>box = Some b, region = None, sphere = None, extensions = None\<rparr> (0 # rest) = Inr (Some \<lparr>box = Some b, region = None, sphere = None, extensions = None\<rparr>)"
    using deriveBoundingVolume_level0_box [of "\<lparr>box = Some b, region = None, sphere = None, extensions = None\<rparr>" b lib rest]
    by (simp add: extensionOf_def)
  show "deriveBoundingVolume lib \<lparr>box = None, region = Some r, sphere = None, extensions = None\<rparr> (0 # rest) = Inr (Some \<lparr>box = None, region = Some r, sphere = None, extensions = None\<rparr>)"
    using deriveBoundingVolume_level0_region [of "\<lparr>box = None, region = Some r, sphere = None, extensions = None\<rparr>" r lib rest]
    by (simp add: extensionOf_def)
  show "deriveBoundingVolume lib \<lparr>box = None, region = None, sphere = None, extensions = Some [''3DTILES_bounding_volume_S2'' \<mapsto> s2]\<rparr> (0 # rest) = Inr (Some \<lparr>box = None, region = None, sphere = None, extensions = Some [''3DTILES_bounding_volume_S2'' \<mapsto> s2]\<rparr>)"
    using deriveBoundingVolume_level0_S2 [of "\<lparr>box = None, region = None, sphere = None, extensions = Some [''3DTILES_bounding_volume_S2'' \<mapsto> s2]\<rparr>" s2 lib rest]
    by (simp add: extensionOf_def S2_EXTENSION_def)
qed

section \<open>The bounding box of a descendant\<close>

text \<open>
  Claim C1. For a root box of 12 numbers and a level above 0, the child's centre is the
  root centre plus the root half-axis matrix applied to the model-space offset
  \<open>(-1 + (2x+1) 2^-level, -1 + (2y+1) 2^-level, -1 + (2z+1) 2^-level or 0 without z)\<close>,
  and the child's half-axes are the columns of the root's scaled by
  \<open>(2^-level, 2^-level, 2^-level or 1 without z)\<close>. The root box with centre 0 and
  half-axes 10 times the identity gives, at level 1 and x = y = z = 0, the centre
  \<open>(-5, -5, -5)\<close> and half of the root's half-axes.
\<close>

theorem deriveBoundingBox_child:
  "(\<forall>rootBox l xv yv z.
      length rootBox = 12 \<and> 0 < l \<longrightarrow>
      deriveBoundingBox rootBox (Some l) (Some xv) (Some yv) z =
        (let s = 2 powr (- l);
             ox = - 1 + (2 * xv + 1) * s;
             oy = - 1 + (2 * yv + 1) * s;
             oz = (case z of Some zv \<Rightarrow> - 1 + (2 * zv + 1) * s | None \<Rightarrow> 0);
             sz = (case z of Some zv \<Rightarrow> s | None \<Rightarrow> 1)
         in Inr [rootBox ! 0 + (rootBox ! 3 * ox + rootBox ! 6 * oy + rootBox ! 9 * oz),
                 rootBox ! 1 + (rootBox ! 4 * ox + rootBox ! 7 * oy + rootBox ! 10 * oz),
                 rootBox ! 2 + (rootBox ! 5 * ox + rootBox ! 8 * oy + rootBox ! 11 * oz),
                 rootBox ! 3 * s, rootBox ! 4 * s, rootBox ! 5 * s,
                 rootBox ! 6 * s, rootBox ! 7 * s, rootBox ! 8 * s,
                 rootBox ! 9 * sz, rootBox ! 10 * sz, rootBox ! 11 * sz])) \<and>
   deriveBoundingBox [0, 0, 0, 10, 0, 0, 0, 10, 0, 0, 0, 10] (Some 1) (Some 0) (Some 0) (Some 0)
     = Inr [- 5, - 5, - 5, 5, 0, 0, 0, 5, 0, 0, 0, 5]"
proof (intro conjI allI impI)
  fix rootBox :: "real list" and l xv yv :: real and z :: "real option"
  assume h: "length rootBox = 12 \<and> 0 < l"
  then have len: "length rootBox = 12" by simp
  from list_of_length_12 [OF len]
  obtain a0 a1 a2 a3 a4 a5 a6 a7 a8 a9 a10 a11
    where r: "rootBox = [a0, a1, a2, a3, a4, a5, a6, a7, a8, a9, a10, a11]"
    by (elim exE)
  show "deriveBoundingBox rootBox (Some l) (Some xv) (Some yv) z =
        (let s = 2 powr (- l);
             ox = - 1 + (2 * xv + 1) * s;
             oy = - 1 + (2 * yv + 1) * s;
             oz = (case z of Some zv \<Rightarrow> - 1 + (2 * zv + 1) * s | None \<Rightarrow> 0);
             sz = (case z of Some zv \<Rightarrow> s | None \<Rightarrow> 1)
         in Inr [rootBox ! 0 + (rootBox ! 3 * ox + rootBox ! 6 * oy + rootBox ! 9 * oz),
                 rootBox ! 1 + (rootBox ! 4 * ox + rootBox ! 7 * oy + rootBox ! 10 * oz),
                 rootBox ! 2 + (rootBox ! 5 * ox + rootBox ! 8 * oy + rootBox ! 11 * oz),
                 rootBox ! 3 * s, rootBox ! 4 * s, rootBox ! 5 * s,
                 rootBox ! 6 * s, rootBox ! 7 * s, rootBox ! 8 * s,
                 rootBox ! 9 * sz, rootBox ! 10 * sz, rootBox ! 11 * sz])"
    using h
    by (simp add: r deriveBoundingBox_def Cartesian3_unpack_def Matrix3_unpack_def nth_opt_def
        Matrix3_multiplyByVector_def Cartesian3_add_def Matrix3_multiplyByScale_def
        Cartesian3_pack_def Let_def add.commute split: option.splits)
next
  show "deriveBoundingBox [0, 0, 0, 10, 0, 0, 0, 10, 0, 0, 0, 10]
          (Some 1) (Some 0) (Some 0) (Some 0)
        = Inr [- 5, - 5, - 5, 5, 0, 0, 0, 5, 0, 0, 0, 5]"
    by (simp add: deriveBoundingBox_def Cartesian3_unpack_def Matrix3_unpack_def nth_opt_def
        Matrix3_multiplyByVector_def Cartesian3_add_def Matrix3_multiplyByScale_def
        Cartesian3_pack_def Let_def powr_minus)
qed

theorem deriveBoundingBox_child_witness:
  "length [1, 2, 3, 4, 0, 0, 0, 8, 0, 0, 0, 2 :: real] = 12 \<and> (0 :: real) < 2 \<and>
   deriveBoundingBox [1, 2, 3, 4, 0, 0, 0, 8, 0, 0, 0, 2] (Some 2) (Some 1) (Some 3) None =
     Inr [0, 8, 3, 1, 0, 0, 0, 2, 0, 0, 0, 2]"
  using deriveBoundingBox_child
    [THEN conjunct1, rule_format, of "[1, 2, 3, 4, 0, 0, 0, 8, 0, 0, 0, 2]" 2 1 3 None]
  by (simp add: powr_minus)

section \<open>The bounding region of a descendant\<close>




section \<open>Identity at the root\<close>

text \<open>
  Claim C4, as stated: every root volume of box, region or S2 form is returned equal to
  itself at the coordinates (0, 0, 0) and (0, 0, 0, 0). The result is a new volume with
  the selected member alone: a root with a region and a box comes back as the region
  only, and a root with a box and a sphere as the box only.
\<close>

theorem deriveBoundingVolume_identity_counterexample:
  "deriveBoundingVolume sampleS2Functions
     \<lparr>box = Some [0, 0, 0, 1, 0, 0, 0, 1, 0, 0, 0, 1], region = Some [0, 0, 1, 1, 0, 10],
      sphere = None, extensions = None\<rparr>
     [0, 0, 0]
     = Inr (Some \<lparr>box = None, region = Some [0, 0, 1, 1, 0, 10], sphere = None,
                   extensions = None\<rparr>) \<and>
   deriveBoundingVolume sampleS2Functions
     \<lparr>box = Some [0, 0, 0, 1, 0, 0, 0, 1, 0, 0, 0, 1], region = Some [0, 0, 1, 1, 0, 10],
      sphere = None, extensions = None\<rparr>
     [0, 0, 0]
     \<noteq> Inr (Some \<lparr>box = Some [0, 0, 0, 1, 0, 0, 0, 1, 0, 0, 0, 1],
                   region = Some [0, 0, 1, 1, 0, 10], sphere = None, extensions = None\<rparr>) \<and>
   deriveBoundingVolume sampleS2Functions
     \<lparr>box = Some [0, 0, 0, 1, 0, 0, 0, 1, 0, 0, 0, 1], region = None,
      sphere = Some [0, 0, 0, 2], extensions = None\<rparr>
     [0, 0, 0, 0]
     = Inr (Some \<lparr>box = Some [0, 0, 0, 1, 0, 0, 0, 1, 0, 0, 0, 1], region = None,
                   sphere = None, extensions = None\<rparr>) \<and>
   deriveBoundingVolume sampleS2Functions
     \<lparr>box = Some [0, 0, 0, 1, 0, 0, 0, 1, 0, 0, 0, 1], region = None,
      sphere = Some [0, 0, 0, 2], extensions = None\<rparr>
     [0, 0, 0, 0]
     \<noteq> Inr (Some \<lparr>box = Some [0, 0, 0, 1, 0, 0, 0, 1, 0, 0, 0, 1], region = None,
                   sphere = Some [0, 0, 0, 2], extensions = None\<rparr>)"
  by (simp add: deriveBoundingVolume_def extensionOf_def nth_opt_def
      deriveBoundingRegion_level0 deriveBoundingBox_level0)

text \<open>
  Claim C4, amended. At the coordinates (0, 0, 0) and (0, 0, 0, 0) a root with the S2
  extension yields the volume whose only member is that extension, with the root's cell
  volume; a root without it but with a region yields the volume whose only member is
  the root's region; a root with neither but with a box yields the volume whose only
  member is the root's box. The result equals the root exactly when the root is a box
  alone, a region alone, or the S2 extension alone.
\<close>

theorem deriveBoundingVolume_identity:
  "(extensions rootVolume = Some exts \<and> exts ''3DTILES_bounding_volume_S2'' = Some s2 \<longrightarrow>
      deriveBoundingVolume lib rootVolume [0, 0, 0] = Inr (Some \<lparr>box = None, region = None, sphere = None, extensions = Some [''3DTILES_bounding_volume_S2'' \<mapsto> s2]\<rparr>) \<and>
      deriveBoundingVolume lib rootVolume [0, 0, 0, 0] = Inr (Some \<lparr>box = None, region = None, sphere = None, extensions = Some [''3DTILES_bounding_volume_S2'' \<mapsto> s2]\<rparr>)) \<and>
   ((case extensions rootVolume of None \<Rightarrow> None | Some exts \<Rightarrow> exts ''3DTILES_bounding_volume_S2'') = None \<and> region rootVolume = Some r \<longrightarrow>
      deriveBoundingVolume lib rootVolume [0, 0, 0] = Inr (Some \<lparr>box = None, region = Some r, sphere = None, extensions = None\<rparr>) \<and>
      deriveBoundingVolume lib rootVolume [0, 0, 0, 0] = Inr (Some \<lparr>box = None, region = Some r, sphere = None, extensions = None\<rparr>)) \<and>
   ((case extensions rootVolume of None \<Rightarrow> None | Some exts \<Rightarrow> exts ''3DTILES_bounding_volume_S2'') = None \<and> region rootVolume = None \<and> box rootVolume = Some b \<longrightarrow>
      deriveBoundingVolume lib rootVolume [0, 0, 0] = Inr (Some \<lparr>box = Some b, region = None, sphere = None, extensions = None\<rparr>) \<and>
      deriveBoundingVolume lib rootVolume [0, 0, 0, 0] = Inr (Some \<lparr>box = Some b, region = None, sphere = None, extensions = None\<rparr>)) \<and>
   (deriveBoundingVolume lib rootVolume [0, 0, 0] = Inr (Some rootVolume) \<longleftrightarrow>
      (\<exists>b. rootVolume = \<lparr>box = Some b, region = None, sphere = None, extensions = None\<rparr>) \<or>
      (\<exists>r. rootVolume = \<lparr>box = None, region = Some r, sphere = None, extensions = None\<rparr>) \<or>
      (\<exists>s2. rootVolume = \<lparr>box = None, region = None, sphere = None, extensions = Some [''3DTILES_bounding_volume_S2'' \<mapsto> s2]\<rparr>)) \<and>
   (deriveBoundingVolume lib rootVolume [0, 0, 0, 0] = Inr (Some rootVolume) \<longleftrightarrow>
      (\<exists>b. rootVolume = \<lparr>box = Some b, region = None, sphere = None, extensions = None\<rparr>) \<or>
      (\<exists>r. rootVolume = \<lparr>box = None, region = Some r, sphere = None, extensions = None\<rparr>) \<or>
      (\<exists>s2. rootVolume = \<lparr>box = None, region = None, sphere = None, extensions = Some [''3DTILES_bounding_volume_S2'' \<mapsto> s2]\<rparr>))"
proof (intro conjI impI)
  assume "extensions rootVolume = Some exts \<and> exts ''3DTILES_bounding_volume_S2'' = Some s2"
  then have h: "extensionOf rootVolume S2_EXTENSION = Some s2"
    by (simp add: extensionOf_S2)
  show "deriveBoundingVolume lib rootVolume [0, 0, 0] = Inr (Some \<lparr>box = None, region = None, sphere = None, extensions = Some [''3DTILES_bounding_volume_S2'' \<mapsto> s2]\<rparr>)"
    by (rule deriveBoundingVolume_level0_S2 [OF h])
  show "deriveBoundingVolume lib rootVolume [0, 0, 0, 0] = Inr (Some \<lparr>box = None, region = None, sphere = None, extensions = Some [''3DTILES_bounding_volume_S2'' \<mapsto> s2]\<rparr>)"
    by (rule deriveBoundingVolume_level0_S2 [OF h])
next
  assume "(case extensions rootVolume of None \<Rightarrow> None | Some exts \<Rightarrow> exts ''3DTILES_bounding_volume_S2'') = None \<and> region rootVolume = Some r"
  then have h: "extensionOf rootVolume S2_EXTENSION = None" "region rootVolume = Some r"
    by (simp_all add: extensionOf_S2)
  show "deriveBoundingVolume lib rootVolume [0, 0, 0] = Inr (Some \<lparr>box = None, region = Some r, sphere = None, extensions = None\<rparr>)"
    by (rule deriveBoundingVolume_level0_region [OF h])
  show "deriveBoundingVolume lib rootVolume [0, 0, 0, 0] = Inr (Some \<lparr>box = None, region = Some r, sphere = None, extensions = None\<rparr>)"
    by (rule deriveBoundingVolume_level0_region [OF h])
next
  assume "(case extensions rootVolume of None \<Rightarrow> None | Some exts \<Rightarrow> exts ''3DTILES_bounding_volume_S2'') = None \<and> region rootVolume = None \<and> box rootVolume = Some b"
  then have h: "extensionOf rootVolume S2_EXTENSION = None" "region rootVolume = None"
      "box rootVolume = Some b"
    by (simp_all add: extensionOf_S2)
  show "deriveBoundingVolume lib rootVolume [0, 0, 0] = Inr (Some \<lparr>box = Some b, region = None, sphere = None, extensions = None\<rparr>)"
    by (rule deriveBoundingVolume_level0_box [OF h])
  show "deriveBoundingVolume lib rootVolume [0, 0, 0, 0] = Inr (Some \<lparr>box = Some b, region = None, sphere = None, extensions = None\<rparr>)"
    by (rule deriveBoundingVolume_level0_box [OF h])
next
  show "deriveBoundingVolume lib rootVolume [0, 0, 0] = Inr (Some rootVolume) \<longleftrightarrow>
      (\<exists>b. rootVolume = \<lparr>box = Some b, region = None, sphere = None, extensions = None\<rparr>) \<or>
      (\<exists>r. rootVolume = \<lparr>box = None, region = Some r, sphere = None, extensions = None\<rparr>) \<or>
      (\<exists>s2. rootVolume = \<lparr>box = None, region = None, sphere = None, extensions = Some [''3DTILES_bounding_volume_S2'' \<mapsto> s2]\<rparr>)"
    using deriveBoundingVolume_level0_same_root [of lib rootVolume "[0, 0]"]
      deriveBoundingVolume_level0_single [of lib _ "[0, 0]"]
    by auto
next
  show "deriveBoundingVolume lib rootVolume [0, 0, 0, 0] = Inr (Some rootVolume) \<longleftrightarrow>
      (\<exists>b. rootVolume = \<lparr>box = Some b, region = None, sphere = None, extensions = None\<rparr>) \<or>
      (\<exists>r. rootVolume = \<lparr>box = None, region = Some r, sphere = None, extensions = None\<rparr>) \<or>
      (\<exists>s2. rootVolume = \<lparr>box = None, region = None, sphere = None, extensions = Some [''3DTILES_bounding_volume_S2'' \<mapsto> s2]\<rparr>)"
    using deriveBoundingVolume_level0_same_root [of lib rootVolume "[0, 0, 0]"]
      deriveBoundingVolume_level0_single [of lib _ "[0, 0, 0]"]
    by auto
qed

theorem deriveBoundingVolume_identity_witness:
  "deriveBoundingVolume sampleS2Functions
     \<lparr>box = Some [0, 0, 0, 1, 0, 0, 0, 1, 0, 0, 0, 1], region = Some [0, 0, 1, 1, 0, 10],
      sphere = None,
      extensions = Some [''3DTILES_bounding_volume_S2'' \<mapsto>
                           \<lparr>token = ''3'', minimumHeight = 0, maximumHeight = 100\<rparr>]\<rparr>
     [0, 0, 0]
     = Inr (Some \<lparr>box = None, region = None, sphere = None,
                   extensions = Some [''3DTILES_bounding_volume_S2'' \<mapsto>
                     \<lparr>token = ''3'', minimumHeight = 0, maximumHeight = 100\<rparr>]\<rparr>) \<and>
   deriveBoundingVolume sampleS2Functions
     \<lparr>box = Some [0, 0, 0, 1, 0, 0, 0, 1, 0, 0, 0, 1], region = Some [0, 0, 1, 1, 0, 10],
      sphere = None, extensions = None\<rparr>
     [0, 0, 0, 0]
     = Inr (Some \<lparr>box = None, region = Some [0, 0, 1, 1, 0, 10], sphere = None,
                   extensions = None\<rparr>) \<and>
   deriveBoundingVolume sampleS2Functions
     \<lparr>box = Some [0, 0, 0, 1, 0, 0, 0, 1, 0, 0, 0, 1], region = None, sphere = None,
      extensions = None\<rparr>
     [0, 0, 0]
     = Inr (Some \<lparr>box = Some [0, 0, 0, 1, 0, 0, 0, 1, 0, 0, 0, 1], region = None,
                   sphere = None, extensions = None\<rparr>)"
  using deriveBoundingVolume_identity
      [of "\<lparr>box = Some [0, 0, 0, 1, 0, 0, 0, 1, 0, 0, 0, 1],
             region = Some [0, 0, 1, 1, 0, 10], sphere = None,
             extensions = Some [''3DTILES_bounding_volume_S2'' \<mapsto>
               \<lparr>token = ''3'', minimumHeight = 0, maximumHeight = 100\<rparr>]\<rparr>"
          "[''3DTILES_bounding_volume_S2'' \<mapsto> \<lparr>token = ''3'', minimumHeight = 0, maximumHeight = 100\<rparr>]"
          "\<lparr>token = ''3'', minimumHeight = 0, maximumHeight = 100\<rparr>"
          sampleS2Functions]
    deriveBoundingVolume_identity
      [of "\<lparr>box = Some [0, 0, 0, 1, 0, 0, 0, 1, 0, 0, 0, 1],
             region = Some [0, 0, 1, 1, 0, 10], sphere = None, extensions = None\<rparr>"
          _ _ sampleS2Functions "[0, 0, 1, 1, 0, 10]"]
    deriveBoundingVolume_identity
      [of "\<lparr>box = Some [0, 0, 0, 1, 0, 0, 0, 1, 0, 0, 0, 1], region = None,
             sphere = None, extensions = None\<rparr>"
          _ _ sampleS2Functions _ "[0, 0, 0, 1, 0, 0, 0, 1, 0, 0, 0, 1]"]
  by simp

section \<open>The S2 cell of a descendant\<close>

lemma faceOf_top_bits:
  assumes "0 \<le> cid" "cid < 2 ^ 64"
  shows "faceOf cid = uint (drop_bit 61 (word_of_int cid :: 64 word))"
proof -
  have t: "take_bit 64 cid = cid" using assms by (simp add: take_bit_int_eq_self)
  have u: "uint (word_of_int cid :: 64 word) = take_bit 64 cid"
    using uint_word_of_int_eq [of cid, where 'a = 64] by simp
  have "uint (drop_bit 61 (word_of_int cid :: 64 word)) =
        drop_bit 61 (take_bit 64 (uint (word_of_int cid :: 64 word)))"
    using unsigned_drop_bit_eq [of 61 "word_of_int cid :: 64 word", where 'a = int] by simp
  then show ?thesis by (simp only: faceOf_def u t take_bit_take_bit min.idem)
qed

lemma deriveBoundingVolumeS2_below:
  assumes "getIdFromToken lib (token bv) = Inr cid" and "l \<noteq> 0"
  shows "deriveBoundingVolumeS2 lib bv (Some l) (Some xv) (Some yv) z =
        (case (if even (faceOf cid) then encode2D lib l xv yv else encode2D lib l yv xv) of
           Inl e \<Rightarrow> Inl e
         | Inr position \<Rightarrow>
             (case fromFacePositionLevel lib (faceOf cid) position l of
                Inl e \<Rightarrow> Inl e
              | Inr cellId \<Rightarrow>
                  (case getTokenFromId lib cellId of
                     Inl e \<Rightarrow> Inl e
                   | Inr t \<Rightarrow> Inr \<lparr>token = t,
                                   minimumHeight = fst (splitHeights bv z),
                                   maximumHeight = snd (splitHeights bv z)\<rparr>)))"
  using assms
  by (simp add: deriveBoundingVolumeS2_def hilbertPosition_def even_iff_mod_2_eq_zero)

lemma hilbertPosition_even: "even face \<Longrightarrow> hilbertPosition lib face l xv yv = encode2D lib l xv yv"
  by (simp add: hilbertPosition_def even_iff_mod_2_eq_zero)

lemma hilbertPosition_odd: "odd face \<Longrightarrow> hilbertPosition lib face l xv yv = encode2D lib l yv xv"
  by (simp add: hilbertPosition_def even_iff_mod_2_eq_zero)

text \<open>
  Claim C6. At a level other than 0 the derived cell identifier is built from the face
  of the root cell (the top 3 bits of its 64-bit identifier), the Hilbert position of
  the level computed from (x, y) on an even face and from (y, x) on an odd face, and
  the level.
  Hence the position used for an even-face root at (x, y) is the one used for an
  odd-face root at (y, x).
\<close>

theorem deriveBoundingVolumeS2_cell:
  "(getIdFromToken lib (token bv) = Inr cid \<and> l \<noteq> 0 \<longrightarrow>
      deriveBoundingVolumeS2 lib bv (Some l) (Some xv) (Some yv) z =
        (case (if even (faceOf cid) then encode2D lib l xv yv else encode2D lib l yv xv) of
           Inl e \<Rightarrow> Inl e
         | Inr position \<Rightarrow>
             (case fromFacePositionLevel lib (faceOf cid) position l of
                Inl e \<Rightarrow> Inl e
              | Inr cellId \<Rightarrow>
                  (case getTokenFromId lib cellId of
                     Inl e \<Rightarrow> Inl e
                   | Inr t \<Rightarrow> Inr \<lparr>token = t,
                                   minimumHeight = fst (splitHeights bv z),
                                   maximumHeight = snd (splitHeights bv z)\<rparr>)))) \<and>
   (0 \<le> cid \<and> cid < 2 ^ 64 \<longrightarrow>
      faceOf cid = uint (drop_bit 61 (word_of_int cid :: 64 word))) \<and>
   (even (faceOf cidEven) \<and> odd (faceOf cidOdd) \<longrightarrow>
      hilbertPosition lib (faceOf cidEven) l xv yv = encode2D lib l xv yv \<and>
      hilbertPosition lib (faceOf cidOdd) l xv yv = encode2D lib l yv xv \<and>
      hilbertPosition lib (faceOf cidEven) l xv yv =
        hilbertPosition lib (faceOf cidOdd) l yv xv)"
proof (intro conjI impI)
  assume "getIdFromToken lib (token bv) = Inr cid \<and> l \<noteq> 0"
  then show "deriveBoundingVolumeS2 lib bv (Some l) (Some xv) (Some yv) z =
        (case (if even (faceOf cid) then encode2D lib l xv yv else encode2D lib l yv xv) of
           Inl e \<Rightarrow> Inl e
         | Inr position \<Rightarrow>
             (case fromFacePositionLevel lib (faceOf cid) position l of
                Inl e \<Rightarrow> Inl e
              | Inr cellId \<Rightarrow>
                  (case getTokenFromId lib cellId of
                     Inl e \<Rightarrow> Inl e
                   | Inr t \<Rightarrow> Inr \<lparr>token = t,
                                   minimumHeight = fst (splitHeights bv z),
                                   maximumHeight = snd (splitHeights bv z)\<rparr>)))"
    using deriveBoundingVolumeS2_below [of lib bv cid l xv yv z] by blast
next
  assume "0 \<le> cid \<and> cid < 2 ^ 64"
  then show "faceOf cid = uint (drop_bit 61 (word_of_int cid :: 64 word))"
    using faceOf_top_bits [of cid] by blast
next
  assume p: "even (faceOf cidEven) \<and> odd (faceOf cidOdd)"
  then show "hilbertPosition lib (faceOf cidEven) l xv yv = encode2D lib l xv yv"
    by (simp add: hilbertPosition_even)
  from p show "hilbertPosition lib (faceOf cidOdd) l xv yv = encode2D lib l yv xv"
    by (simp add: hilbertPosition_odd)
  from p show "hilbertPosition lib (faceOf cidEven) l xv yv =
        hilbertPosition lib (faceOf cidOdd) l yv xv"
    by (simp add: hilbertPosition_even hilbertPosition_odd)
qed

theorem deriveBoundingVolumeS2_cell_witness:
  "getIdFromToken sampleS2Functions
     (token \<lparr>token = ''3'', minimumHeight = 0, maximumHeight = 100\<rparr>) = Inr (3 * 2 ^ 60) \<and>
   (1 :: real) \<noteq> 0 \<and>
   deriveBoundingVolumeS2 sampleS2Functions
     \<lparr>token = ''3'', minimumHeight = 0, maximumHeight = 100\<rparr>
     (Some 1) (Some 1) (Some 0) (Some 1)
     = Inr \<lparr>token = ''2c'', minimumHeight = 50, maximumHeight = 100\<rparr> \<and>
   even (faceOf (2 ^ 60)) \<and> odd (faceOf (3 * 2 ^ 60)) \<and>
   hilbertPosition sampleS2Functions (faceOf (2 ^ 60)) 1 1 0 =
     hilbertPosition sampleS2Functions (faceOf (3 * 2 ^ 60)) 1 0 1"
proof -
  have h: "getIdFromToken sampleS2Functions
             (token \<lparr>token = ''3'', minimumHeight = 0, maximumHeight = 100\<rparr>) = Inr (3 * 2 ^ 60) \<and>
           (1 :: real) \<noteq> 0"
    by (simp add: sampleS2Functions_def)
  have p: "even (faceOf (2 ^ 60)) \<and> odd (faceOf (3 * 2 ^ 60))"
    by (simp add: faceOf_def drop_bit_eq_div)
  note cell = deriveBoundingVolumeS2_cell
    [of sampleS2Functions "\<lparr>token = ''3'', minimumHeight = 0, maximumHeight = 100\<rparr>"
        "3 * 2 ^ 60" 1 1 0 "Some 1" "2 ^ 60" "3 * 2 ^ 60"]
  from cell [THEN conjunct1, rule_format, OF h]
  have d: "deriveBoundingVolumeS2 sampleS2Functions
             \<lparr>token = ''3'', minimumHeight = 0, maximumHeight = 100\<rparr>
             (Some 1) (Some 1) (Some 0) (Some 1)
           = Inr \<lparr>token = ''2c'', minimumHeight = 50, maximumHeight = 100\<rparr>"
    by (simp add: faceOf_def drop_bit_eq_div sampleS2Functions_def splitHeights_def
        jsTrunc_numerals)
  from cell [THEN conjunct2, THEN conjunct2, rule_format, OF p]
  have s: "hilbertPosition sampleS2Functions (faceOf (2 ^ 60)) 1 1 0 =
           hilbertPosition sampleS2Functions (faceOf (3 * 2 ^ 60)) 1 0 1"
    by blast
  show ?thesis using h p d s by simp
qed

section \<open>Spheres\<close>

text \<open>
  Claim C8. For a root volume without box, without region and without the S2 extension
  (a bounding sphere), the derivation returns \<open>undefined\<close> for every coordinate array:
  it neither raises nor returns a volume.
\<close>

theorem deriveBoundingVolume_sphere:
  assumes "box rootVolume = None" and "region rootVolume = None"
    and "\<not> hasExtension rootVolume S2_EXTENSION"
  shows "deriveBoundingVolume lib rootVolume coords = Inr None"
  using assms by (simp add: deriveBoundingVolume_def hasExtension_def Let_def)

theorem deriveBoundingVolume_sphere_witness:
  "deriveBoundingVolume sampleS2Functions
     \<lparr>box = None, region = None, sphere = Some [0, 0, 0, 1], extensions = None\<rparr> [2, 1, 1]
     = Inr None"
  using deriveBoundingVolume_sphere
    [of "\<lparr>box = None, region = None, sphere = Some [0, 0, 0, 1], extensions = None\<rparr>"
        sampleS2Functions "[2, 1, 1]"]
  by (simp add: hasExtension_def extensionOf_def)

section \<open>Level 0 ignores the other coordinates\<close>

text \<open>
  Claim C9, as stated: for every root volume the derivation at level 0 returns the
  root's volume unchanged. A root that is a bounding sphere has no volume to return:
  the derivation gives \<open>undefined\<close> at level 0 as at every other level.
\<close>

theorem deriveBoundingVolume_level0_sphere_counterexample:
  "deriveBoundingVolume sampleS2Functions
     \<lparr>box = None, region = None, sphere = Some [0, 0, 0, 1], extensions = None\<rparr> [0, 5, 7]
     = Inr None \<and>
   deriveBoundingVolume sampleS2Functions
     \<lparr>box = None, region = None, sphere = Some [0, 0, 0, 1], extensions = None\<rparr> [0, 5, 7]
     \<noteq> Inr (Some \<lparr>box = None, region = None, sphere = Some [0, 0, 0, 1],
                   extensions = None\<rparr>)"
  by (simp add: deriveBoundingVolume_def extensionOf_def)

text \<open>
  Claim C9, amended. At level 0 each of the three derivations returns its root shape
  unchanged whatever x, y and z are, present or not. For a coordinate array that starts
  with 0, the derivation returns the volume whose only member is the root's S2 cell
  volume when the root has the S2 extension, else the volume whose only member is the
  root's region when it has one, else the volume whose only member is the root's box
  when it has one, and \<open>undefined\<close> when it has none of them; so the result is the one
  at (0, 0, 0) and at (0, 0, 0, 0).
\<close>

theorem deriveBoundingVolume_level0_any:
  "deriveBoundingBox rootBox (Some 0) x y z = Inr rootBox \<and>
   deriveBoundingRegion rootRegion (Some 0) x y z = Inr rootRegion \<and>
   deriveBoundingVolumeS2 lib s2' (Some 0) x y z = Inr s2' \<and>
   (extensions rootVolume = Some exts \<and> exts ''3DTILES_bounding_volume_S2'' = Some s2 \<longrightarrow>
      deriveBoundingVolume lib rootVolume (0 # rest) = Inr (Some \<lparr>box = None, region = None, sphere = None, extensions = Some [''3DTILES_bounding_volume_S2'' \<mapsto> s2]\<rparr>)) \<and>
   ((case extensions rootVolume of None \<Rightarrow> None | Some exts \<Rightarrow> exts ''3DTILES_bounding_volume_S2'') = None \<and> region rootVolume = Some r \<longrightarrow>
      deriveBoundingVolume lib rootVolume (0 # rest) = Inr (Some \<lparr>box = None, region = Some r, sphere = None, extensions = None\<rparr>)) \<and>
   ((case extensions rootVolume of None \<Rightarrow> None | Some exts \<Rightarrow> exts ''3DTILES_bounding_volume_S2'') = None \<and> region rootVolume = None \<and> box rootVolume = Some b \<longrightarrow>
      deriveBoundingVolume lib rootVolume (0 # rest) = Inr (Some \<lparr>box = Some b, region = None, sphere = None, extensions = None\<rparr>)) \<and>
   ((case extensions rootVolume of None \<Rightarrow> None | Some exts \<Rightarrow> exts ''3DTILES_bounding_volume_S2'') = None \<and> region rootVolume = None \<and> box rootVolume = None \<longrightarrow>
      deriveBoundingVolume lib rootVolume (0 # rest) = Inr None) \<and>
   deriveBoundingVolume lib rootVolume (0 # rest) =
     deriveBoundingVolume lib rootVolume [0, 0, 0] \<and>
   deriveBoundingVolume lib rootVolume (0 # rest) =
     deriveBoundingVolume lib rootVolume [0, 0, 0, 0]"
proof (intro conjI impI)
  show "deriveBoundingBox rootBox (Some 0) x y z = Inr rootBox"
    by (rule deriveBoundingBox_level0)
  show "deriveBoundingRegion rootRegion (Some 0) x y z = Inr rootRegion"
    by (rule deriveBoundingRegion_level0)
  show "deriveBoundingVolumeS2 lib s2' (Some 0) x y z = Inr s2'"
    by (rule deriveBoundingVolumeS2_level0)
next
  assume "extensions rootVolume = Some exts \<and> exts ''3DTILES_bounding_volume_S2'' = Some s2"
  then have h: "extensionOf rootVolume S2_EXTENSION = Some s2"
    by (simp add: extensionOf_S2)
  show "deriveBoundingVolume lib rootVolume (0 # rest) = Inr (Some \<lparr>box = None, region = None, sphere = None, extensions = Some [''3DTILES_bounding_volume_S2'' \<mapsto> s2]\<rparr>)"
    by (rule deriveBoundingVolume_level0_S2 [OF h])
next
  assume "(case extensions rootVolume of None \<Rightarrow> None | Some exts \<Rightarrow> exts ''3DTILES_bounding_volume_S2'') = None \<and> region rootVolume = Some r"
  then have h: "extensionOf rootVolume S2_EXTENSION = None" "region rootVolume = Some r"
    by (simp_all add: extensionOf_S2)
  show "deriveBoundingVolume lib rootVolume (0 # rest) = Inr (Some \<lparr>box = None, region = Some r, sphere = None, extensions = None\<rparr>)"
    by (rule deriveBoundingVolume_level0_region [OF h])
next
  assume "(case extensions rootVolume of None \<Rightarrow> None | Some exts \<Rightarrow> exts ''3DTILES_bounding_volume_S2'') = None \<and> region rootVolume = None \<and> box rootVolume = Some b"
  then have h: "extensionOf rootVolume S2_EXTENSION = None" "region rootVolume = None"
      "box rootVolume = Some b"
    by (simp_all add: extensionOf_S2)
  show "deriveBoundingVolume lib rootVolume (0 # rest) = Inr (Some \<lparr>box = Some b, region = None, sphere = None, extensions = None\<rparr>)"
    by (rule deriveBoundingVolume_level0_box [OF h])
next
  assume "(case extensions rootVolume of None \<Rightarrow> None | Some exts \<Rightarrow> exts ''3DTILES_bounding_volume_S2'') = None \<and> region rootVolume = None \<and> box rootVolume = None"
  then have h: "extensionOf rootVolume S2_EXTENSION = None" "region rootVolume = None"
      "box rootVolume = None"
    by (simp_all add: extensionOf_S2)
  show "deriveBoundingVolume lib rootVolume (0 # rest) = Inr None"
    by (rule deriveBoundingVolume_without_shape [OF h])
next
  show "deriveBoundingVolume lib rootVolume (0 # rest) =
     deriveBoundingVolume lib rootVolume [0, 0, 0]"
    using deriveBoundingVolume_level0_rest [of lib rootVolume rest]
      deriveBoundingVolume_level0_rest [of lib rootVolume "[0, 0]"]
    by simp
  show "deriveBoundingVolume lib rootVolume (0 # rest) =
     deriveBoundingVolume lib rootVolume [0, 0, 0, 0]"
    using deriveBoundingVolume_level0_rest [of lib rootVolume rest]
      deriveBoundingVolume_level0_rest [of lib rootVolume "[0, 0, 0]"]
    by simp
qed

theorem deriveBoundingVolume_level0_any_witness:
  "deriveBoundingVolume sampleS2Functions
     \<lparr>box = Some [0, 0, 0, 1, 0, 0, 0, 1, 0, 0, 0, 1], region = Some [0, 0, 1, 1, 0, 10],
      sphere = None,
      extensions = Some [''3DTILES_bounding_volume_S2'' \<mapsto>
                           \<lparr>token = ''3'', minimumHeight = 0, maximumHeight = 100\<rparr>]\<rparr>
     [0, 5, 7, 9]
     = Inr (Some \<lparr>box = None, region = None, sphere = None,
                   extensions = Some [''3DTILES_bounding_volume_S2'' \<mapsto>
                     \<lparr>token = ''3'', minimumHeight = 0, maximumHeight = 100\<rparr>]\<rparr>) \<and>
   deriveBoundingVolume sampleS2Functions
     \<lparr>box = Some [0, 0, 0, 1, 0, 0, 0, 1, 0, 0, 0, 1], region = Some [4, 0, 5, 1, 0, 10],
      sphere = None, extensions = None\<rparr>
     [0, 5, 7]
     = Inr (Some \<lparr>box = None, region = Some [4, 0, 5, 1, 0, 10], sphere = None,
                   extensions = None\<rparr>) \<and>
   deriveBoundingVolume sampleS2Functions
     \<lparr>box = Some [0, 0, 0, 1, 0, 0, 0, 1, 0, 0, 0, 1], region = None,
      sphere = Some [0, 0, 0, 2], extensions = None\<rparr>
     [0]
     = Inr (Some \<lparr>box = Some [0, 0, 0, 1, 0, 0, 0, 1, 0, 0, 0, 1], region = None,
                   sphere = None, extensions = None\<rparr>) \<and>
   deriveBoundingVolume sampleS2Functions
     \<lparr>box = None, region = None, sphere = Some [0, 0, 0, 2], extensions = None\<rparr>
     [0, 5, 7]
     = Inr None"
  using deriveBoundingVolume_level0_any
      [of _ _ _ _ _ _ _
          "\<lparr>box = Some [0, 0, 0, 1, 0, 0, 0, 1, 0, 0, 0, 1],
             region = Some [0, 0, 1, 1, 0, 10], sphere = None,
             extensions = Some [''3DTILES_bounding_volume_S2'' \<mapsto>
               \<lparr>token = ''3'', minimumHeight = 0, maximumHeight = 100\<rparr>]\<rparr>"
          "[''3DTILES_bounding_volume_S2'' \<mapsto> \<lparr>token = ''3'', minimumHeight = 0, maximumHeight = 100\<rparr>]"
          "\<lparr>token = ''3'', minimumHeight = 0, maximumHeight = 100\<rparr>"
          "[5, 7, 9]"]
    deriveBoundingVolume_level0_any
      [of _ _ _ _ _ sampleS2Functions _
          "\<lparr>box = Some [0, 0, 0, 1, 0, 0, 0, 1, 0, 0, 0, 1],
             region = Some [4, 0, 5, 1, 0, 10], sphere = None, extensions = None\<rparr>"
          _ _ "[5, 7]" "[4, 0, 5, 1, 0, 10]"]
    deriveBoundingVolume_level0_any
      [of _ _ _ _ _ sampleS2Functions _
          "\<lparr>box = Some [0, 0, 0, 1, 0, 0, 0, 1, 0, 0, 0, 1], region = None,
             sphere = Some [0, 0, 0, 2], extensions = None\<rparr>"
          _ _ "[]" _ "[0, 0, 0, 1, 0, 0, 0, 1, 0, 0, 0, 1]"]
    deriveBoundingVolume_level0_any
      [of _ _ _ _ _ sampleS2Functions _
          "\<lparr>box = None, region = None, sphere = Some [0, 0, 0, 2], extensions = None\<rparr>"
          _ _ "[5, 7]"]
  by simp

section \<open>The priority of the representations\<close>

lemma deriveBoundingVolume_shape:
  assumes "deriveBoundingVolume lib rootVolume coords = Inr (Some v)"
  shows "(extensionOf rootVolume S2_EXTENSION \<noteq> None \<and>
          (\<exists>c. v = \<lparr>box = None, region = None, sphere = None, extensions = Some [''3DTILES_bounding_volume_S2'' \<mapsto> c]\<rparr>)) \<or>
         (extensionOf rootVolume S2_EXTENSION = None \<and> region rootVolume \<noteq> None \<and>
          (\<exists>c. v = \<lparr>box = None, region = Some c, sphere = None, extensions = None\<rparr>)) \<or>
         (extensionOf rootVolume S2_EXTENSION = None \<and> region rootVolume = None \<and>
          box rootVolume \<noteq> None \<and>
          (\<exists>c. v = \<lparr>box = Some c, region = None, sphere = None, extensions = None\<rparr>))"
proof (cases "extensionOf rootVolume S2_EXTENSION")
  case (Some s2)
  then show ?thesis
    using assms deriveBoundingVolume_with_S2 [OF Some, of lib coords]
    by (auto split: sum.splits)
next
  case noS2: None
  show ?thesis
  proof (cases "region rootVolume")
    case (Some rootRegion)
    then show ?thesis
      using assms noS2 deriveBoundingVolume_with_region [OF noS2 Some, of lib coords]
      by (auto split: sum.splits)
  next
    case noRegion: None
    show ?thesis
    proof (cases "box rootVolume")
      case (Some rootBox)
      then show ?thesis
        using assms noS2 noRegion
          deriveBoundingVolume_with_box [OF noS2 noRegion Some, of lib coords]
        by (auto split: sum.splits)
    next
      case None
      then show ?thesis
        using assms noS2 noRegion by (simp add: deriveBoundingVolume_without_shape)
    qed
  qed
qed

text \<open>
  Claim C10. With the S2 extension on the root, the S2 derivation is used and a region
  or a box on the root is ignored; without it a region takes precedence over a box; and
  a volume that is returned has the member of the selected shape and no other: no box
  and no region beside the S2 extension, no box and no extension beside the region, no
  region and no extension beside the box, and never a sphere.
\<close>

theorem deriveBoundingVolume_priority:
  "(extensions rootVolume = Some exts \<and> exts ''3DTILES_bounding_volume_S2'' = Some s2 \<longrightarrow>
      deriveBoundingVolume lib rootVolume coords =
        (case deriveBoundingVolumeS2 lib s2 (nth_opt coords 0) (nth_opt coords 1)
                (nth_opt coords 2) (nth_opt coords 3) of
           Inl e \<Rightarrow> Inl e
         | Inr c \<Rightarrow> Inr (Some \<lparr>box = None, region = None, sphere = None, extensions = Some [''3DTILES_bounding_volume_S2'' \<mapsto> c]\<rparr>)) \<and>
      deriveBoundingVolume lib (rootVolume\<lparr>box := b, region := r\<rparr>) coords =
        deriveBoundingVolume lib rootVolume coords) \<and>
   ((case extensions rootVolume of None \<Rightarrow> None | Some exts \<Rightarrow> exts ''3DTILES_bounding_volume_S2'') = None \<and> region rootVolume = Some rootRegion \<longrightarrow>
      deriveBoundingVolume lib rootVolume coords =
        (case deriveBoundingRegion rootRegion (nth_opt coords 0) (nth_opt coords 1)
                (nth_opt coords 2) (nth_opt coords 3) of
           Inl e \<Rightarrow> Inl e
         | Inr c \<Rightarrow> Inr (Some \<lparr>box = None, region = Some c, sphere = None, extensions = None\<rparr>)) \<and>
      deriveBoundingVolume lib (rootVolume\<lparr>box := b\<rparr>) coords =
        deriveBoundingVolume lib rootVolume coords) \<and>
   ((case extensions rootVolume of None \<Rightarrow> None | Some exts \<Rightarrow> exts ''3DTILES_bounding_volume_S2'') = None \<and> region rootVolume = None \<and> box rootVolume = Some rootBox \<longrightarrow>
      deriveBoundingVolume lib rootVolume coords =
        (case deriveBoundingBox rootBox (nth_opt coords 0) (nth_opt coords 1)
                (nth_opt coords 2) (nth_opt coords 3) of
           Inl e \<Rightarrow> Inl e
         | Inr c \<Rightarrow> Inr (Some \<lparr>box = Some c, region = None, sphere = None, extensions = None\<rparr>))) \<and>
   (deriveBoundingVolume lib rootVolume coords = Inr (Some v) \<longrightarrow>
      sphere v = None \<and>
      ((\<not> (case extensions rootVolume of None \<Rightarrow> None | Some exts \<Rightarrow> exts ''3DTILES_bounding_volume_S2'') = None \<and> box v = None \<and> region v = None \<and>
        (\<exists>c. extensions v = Some [''3DTILES_bounding_volume_S2'' \<mapsto> c])) \<or>
       ((case extensions rootVolume of None \<Rightarrow> None | Some exts \<Rightarrow> exts ''3DTILES_bounding_volume_S2'') = None \<and> region rootVolume \<noteq> None \<and> box v = None \<and> region v \<noteq> None \<and>
        extensions v = None) \<or>
       ((case extensions rootVolume of None \<Rightarrow> None | Some exts \<Rightarrow> exts ''3DTILES_bounding_volume_S2'') = None \<and> region rootVolume = None \<and> box rootVolume \<noteq> None \<and> box v \<noteq> None \<and>
        region v = None \<and> extensions v = None)))"
proof (intro conjI impI)
  assume "extensions rootVolume = Some exts \<and> exts ''3DTILES_bounding_volume_S2'' = Some s2"
  then have h: "extensionOf rootVolume S2_EXTENSION = Some s2"
    by (simp add: extensionOf_S2)
  show "deriveBoundingVolume lib rootVolume coords =
        (case deriveBoundingVolumeS2 lib s2 (nth_opt coords 0) (nth_opt coords 1)
                (nth_opt coords 2) (nth_opt coords 3) of
           Inl e \<Rightarrow> Inl e
         | Inr c \<Rightarrow> Inr (Some \<lparr>box = None, region = None, sphere = None, extensions = Some [''3DTILES_bounding_volume_S2'' \<mapsto> c]\<rparr>))"
    by (rule deriveBoundingVolume_with_S2 [OF h])
  have "extensionOf (rootVolume\<lparr>box := b, region := r\<rparr>) S2_EXTENSION = Some s2"
    using h by (simp add: extensionOf_def)
  then show "deriveBoundingVolume lib (rootVolume\<lparr>box := b, region := r\<rparr>) coords =
        deriveBoundingVolume lib rootVolume coords"
    using h by (simp add: deriveBoundingVolume_with_S2)
next
  assume "(case extensions rootVolume of None \<Rightarrow> None | Some exts \<Rightarrow> exts ''3DTILES_bounding_volume_S2'') = None \<and> region rootVolume = Some rootRegion"
  then have h: "extensionOf rootVolume S2_EXTENSION = None"
      "region rootVolume = Some rootRegion"
    by (simp_all add: extensionOf_S2)
  show "deriveBoundingVolume lib rootVolume coords =
        (case deriveBoundingRegion rootRegion (nth_opt coords 0) (nth_opt coords 1)
                (nth_opt coords 2) (nth_opt coords 3) of
           Inl e \<Rightarrow> Inl e
         | Inr c \<Rightarrow> Inr (Some \<lparr>box = None, region = Some c, sphere = None, extensions = None\<rparr>))"
    by (rule deriveBoundingVolume_with_region [OF h])
  have "extensionOf (rootVolume\<lparr>box := b\<rparr>) S2_EXTENSION = None"
      "region (rootVolume\<lparr>box := b\<rparr>) = Some rootRegion"
    using h by (simp_all add: extensionOf_def)
  then show "deriveBoundingVolume lib (rootVolume\<lparr>box := b\<rparr>) coords =
        deriveBoundingVolume lib rootVolume coords"
    using h by (simp add: deriveBoundingVolume_with_region)
next
  assume "(case extensions rootVolume of None \<Rightarrow> None | Some exts \<Rightarrow> exts ''3DTILES_bounding_volume_S2'') = None \<and> region rootVolume = None \<and> box rootVolume = Some rootBox"
  then have h: "extensionOf rootVolume S2_EXTENSION = None" "region rootVolume = None"
      "box rootVolume = Some rootBox"
    by (simp_all add: extensionOf_S2)
  show "deriveBoundingVolume lib rootVolume coords =
        (case deriveBoundingBox rootBox (nth_opt coords 0) (nth_opt coords 1)
                (nth_opt coords 2) (nth_opt coords 3) of
           Inl e \<Rightarrow> Inl e
         | Inr c \<Rightarrow> Inr (Some \<lparr>box = Some c, region = None, sphere = None, extensions = None\<rparr>))"
    by (rule deriveBoundingVolume_with_box [OF h])
next
  assume a: "deriveBoundingVolume lib rootVolume coords = Inr (Some v)"
  from deriveBoundingVolume_shape [OF a]
  show "sphere v = None"
    by auto
  from deriveBoundingVolume_shape [OF a]
  show "(\<not> (case extensions rootVolume of None \<Rightarrow> None | Some exts \<Rightarrow> exts ''3DTILES_bounding_volume_S2'') = None \<and> box v = None \<and> region v = None \<and>
        (\<exists>c. extensions v = Some [''3DTILES_bounding_volume_S2'' \<mapsto> c])) \<or>
       ((case extensions rootVolume of None \<Rightarrow> None | Some exts \<Rightarrow> exts ''3DTILES_bounding_volume_S2'') = None \<and> region rootVolume \<noteq> None \<and> box v = None \<and> region v \<noteq> None \<and>
        extensions v = None) \<or>
       ((case extensions rootVolume of None \<Rightarrow> None | Some exts \<Rightarrow> exts ''3DTILES_bounding_volume_S2'') = None \<and> region rootVolume = None \<and> box rootVolume \<noteq> None \<and> box v \<noteq> None \<and>
        region v = None \<and> extensions v = None)"
    unfolding extensionOf_S2 by auto
qed

theorem deriveBoundingVolume_priority_witness:
  "deriveBoundingVolume sampleS2Functions
     \<lparr>box = Some [0, 0, 0, 1, 0, 0, 0, 1, 0, 0, 0, 1], region = Some [0, 0, 1, 1, 0, 10],
      sphere = None,
      extensions = Some [''3DTILES_bounding_volume_S2'' \<mapsto>
                           \<lparr>token = ''3'', minimumHeight = 0, maximumHeight = 100\<rparr>]\<rparr>
     [1, 1, 0]
     = Inr (Some \<lparr>box = None, region = None, sphere = None,
                   extensions = Some [''3DTILES_bounding_volume_S2'' \<mapsto>
                     \<lparr>token = ''2c'', minimumHeight = 0, maximumHeight = 100\<rparr>]\<rparr>) \<and>
   deriveBoundingVolume sampleS2Functions
     \<lparr>box = Some [0, 0, 0, 10, 0, 0, 0, 10, 0, 0, 0, 10], region = Some [3, 0, 4, 1, 0, 10],
      sphere = None, extensions = None\<rparr>
     [0, 5, 7]
     = Inr (Some \<lparr>box = None, region = Some [3, 0, 4, 1, 0, 10], sphere = None,
                   extensions = None\<rparr>) \<and>
   deriveBoundingVolume sampleS2Functions
     \<lparr>box = Some [0, 0, 0, 10, 0, 0, 0, 10, 0, 0, 0, 10], region = None,
      sphere = Some [0, 0, 0, 20], extensions = None\<rparr>
     [1, 0, 0, 0]
     = Inr (Some \<lparr>box = Some [- 5, - 5, - 5, 5, 0, 0, 0, 5, 0, 0, 0, 5], region = None,
                   sphere = None, extensions = None\<rparr>)"
proof -
  have h1: "extensions
        \<lparr>box = Some [0, 0, 0, 1, 0, 0, 0, 1, 0, 0, 0, 1], region = Some [0, 0, 1, 1, 0, 10],
         sphere = None,
         extensions = Some [''3DTILES_bounding_volume_S2'' \<mapsto>
           \<lparr>token = ''3'', minimumHeight = 0, maximumHeight = 100\<rparr>]\<rparr>
      = Some [''3DTILES_bounding_volume_S2'' \<mapsto> \<lparr>token = ''3'', minimumHeight = 0, maximumHeight = 100\<rparr>] \<and>
      [''3DTILES_bounding_volume_S2'' \<mapsto> \<lparr>token = ''3'', minimumHeight = 0, maximumHeight = 100\<rparr>] ''3DTILES_bounding_volume_S2''
      = Some \<lparr>token = ''3'', minimumHeight = 0, maximumHeight = 100\<rparr>"
    by simp
  have d1: "deriveBoundingVolumeS2 sampleS2Functions
        \<lparr>token = ''3'', minimumHeight = 0, maximumHeight = 100\<rparr>
        (Some 1) (Some 1) (Some 0) None
      = Inr \<lparr>token = ''2c'', minimumHeight = 0, maximumHeight = 100\<rparr>"
    by (simp add: deriveBoundingVolumeS2_def hilbertPosition_def sampleS2Functions_def
        faceOf_def drop_bit_eq_div splitHeights_def)
  from deriveBoundingVolume_priority
      [of _ _ _ sampleS2Functions "[1, 1, 0]",
       THEN conjunct1, rule_format, OF h1, THEN conjunct1]
  have a: "deriveBoundingVolume sampleS2Functions
     \<lparr>box = Some [0, 0, 0, 1, 0, 0, 0, 1, 0, 0, 0, 1], region = Some [0, 0, 1, 1, 0, 10],
      sphere = None,
      extensions = Some [''3DTILES_bounding_volume_S2'' \<mapsto>
                           \<lparr>token = ''3'', minimumHeight = 0, maximumHeight = 100\<rparr>]\<rparr>
     [1, 1, 0]
     = Inr (Some \<lparr>box = None, region = None, sphere = None,
                   extensions = Some [''3DTILES_bounding_volume_S2'' \<mapsto>
                     \<lparr>token = ''2c'', minimumHeight = 0, maximumHeight = 100\<rparr>]\<rparr>)"
    by (simp add: nth_opt_def d1)
  have h2: "(case extensions
          \<lparr>box = Some [0, 0, 0, 10, 0, 0, 0, 10, 0, 0, 0, 10],
           region = Some [3, 0, 4, 1, 0, 10], sphere = None, extensions = None\<rparr> of
        None \<Rightarrow> None | Some exts \<Rightarrow> exts ''3DTILES_bounding_volume_S2'') = None \<and>
      region \<lparr>box = Some [0, 0, 0, 10, 0, 0, 0, 10, 0, 0, 0, 10],
           region = Some [3, 0, 4, 1, 0, 10], sphere = None, extensions = None\<rparr>
      = Some [3, 0, 4, 1, 0, 10]"
    by simp
  from deriveBoundingVolume_priority
      [of _ _ _ sampleS2Functions "[0, 5, 7]",
       THEN conjunct2, THEN conjunct1, rule_format, OF h2, THEN conjunct1]
  have b: "deriveBoundingVolume sampleS2Functions
     \<lparr>box = Some [0, 0, 0, 10, 0, 0, 0, 10, 0, 0, 0, 10], region = Some [3, 0, 4, 1, 0, 10],
      sphere = None, extensions = None\<rparr>
     [0, 5, 7]
     = Inr (Some \<lparr>box = None, region = Some [3, 0, 4, 1, 0, 10], sphere = None,
                   extensions = None\<rparr>)"
    by (simp add: nth_opt_def deriveBoundingRegion_level0)
  have h3: "(case extensions
          \<lparr>box = Some [0, 0, 0, 10, 0, 0, 0, 10, 0, 0, 0, 10], region = None,
           sphere = Some [0, 0, 0, 20], extensions = None\<rparr> of
        None \<Rightarrow> None | Some exts \<Rightarrow> exts ''3DTILES_bounding_volume_S2'') = None \<and>
      region \<lparr>box = Some [0, 0, 0, 10, 0, 0, 0, 10, 0, 0, 0, 10], region = None,
           sphere = Some [0, 0, 0, 20], extensions = None\<rparr> = None \<and>
      box \<lparr>box = Some [0, 0, 0, 10, 0, 0, 0, 10, 0, 0, 0, 10], region = None,
           sphere = Some [0, 0, 0, 20], extensions = None\<rparr>
      = Some [0, 0, 0, 10, 0, 0, 0, 10, 0, 0, 0, 10]"
    by simp
  have d3: "deriveBoundingBox [0, 0, 0, 10, 0, 0, 0, 10, 0, 0, 0, 10]
        (Some 1) (Some 0) (Some 0) (Some 0)
      = Inr [- 5, - 5, - 5, 5, 0, 0, 0, 5, 0, 0, 0, 5]"
    by (simp add: deriveBoundingBox_def Cartesian3_unpack_def Matrix3_unpack_def nth_opt_def
        Matrix3_multiplyByVector_def Cartesian3_add_def Matrix3_multiplyByScale_def
        Cartesian3_pack_def Let_def powr_minus)
  from deriveBoundingVolume_priority
      [of _ _ _ sampleS2Functions "[1, 0, 0, 0]",
       THEN conjunct2, THEN conjunct2, THEN conjunct1, rule_format, OF h3]
  have c: "deriveBoundingVolume sampleS2Functions
     \<lparr>box = Some [0, 0, 0, 10, 0, 0, 0, 10, 0, 0, 0, 10], region = None,
      sphere = Some [0, 0, 0, 20], extensions = None\<rparr>
     [1, 0, 0, 0]
     = Inr (Some \<lparr>box = Some [- 5, - 5, - 5, 5, 0, 0, 0, 5, 0, 0, 0, 5], region = None,
                   sphere = None, extensions = None\<rparr>)"
    by (simp add: nth_opt_def d3)
  show ?thesis using a b c by (intro conjI)
qed

section \<open>Packing integers\<close>

lemma leBytes_numeral:
  "leBytes (numeral k) v = word_of_int v # leBytes (pred_numeral k) (v div 256)"
  by (simp add: numeral_eq_Suc)

lemma leBytes_1: "leBytes 1 v = [word_of_int v]"
  using leBytes.simps(2) [of 0 v] by simp

lemma length_leBytes: "length (leBytes n v) = n"
  by (induction n arbitrary: v) simp_all

lemma leValue_leBytes: "int (leValue (leBytes n v)) = v mod 256 ^ n"
proof (induction n arbitrary: v)
  case 0
  then show ?case by simp
next
  case (Suc n)
  have "uint (word_of_int v :: byte) = v mod 256"
    by (simp add: uint_word_of_int take_bit_eq_mod)
  then have u: "int (unat (word_of_int v :: byte)) = v mod 256" by simp
  have "v mod (256 * 256 ^ n) = 256 * (v div 256 mod 256 ^ n) + v mod 256"
    by (rule zmod_zmult2_eq) simp
  then show ?case using Suc [of "v div 256"] u by simp
qed

lemma leValue_leBytes_nat: "leValue (leBytes n (int k)) = k mod 256 ^ n"
proof -
  have "int (leValue (leBytes n (int k))) = int (k mod 256 ^ n)"
    by (simp add: leValue_leBytes zmod_int)
  then show ?thesis by (simp only: of_nat_eq_iff)
qed

lemma flattenFully_numbers:
  "flattenFully (JArr (map (\<lambda>n. JNum (of_nat n)) offsets)) =
     map (\<lambda>n. JNum (of_nat n)) offsets"
  by (induction offsets) simp_all

lemma packAll_toIntegerBytes:
  "packAll (toIntegerBytes w) (map (\<lambda>n. JNum (of_nat n)) offsets) =
     Inr (concat (map (\<lambda>n. leBytes w (int n)) offsets))"
  by (induction offsets) (simp_all add: toIntegerBytes_def jsTrunc_of_nat)

lemma packAll_toBigIntBytes:
  "packAll toBigIntBytes (map (\<lambda>n. JNum (of_nat n)) offsets) =
     Inr (concat (map (\<lambda>n. leBytes 8 (int n)) offsets))"
  by (induction offsets) (simp_all add: toBigIntBytes_def)

lemma createBuffer_offsets:
  assumes "unsignedWidth offsetType = Some w"
  shows "createBuffer (map (\<lambda>n. JNum (of_nat n)) offsets)
           (Some (defaultValue offsetType ''UINT32'')) =
         Inr (concat (map (\<lambda>n. leBytes w (int n)) offsets))"
  using assms
  by (auto simp: unsignedWidth_def Let_def createBuffer_def createBufferInternal_def
      packAll_toIntegerBytes packAll_toBigIntBytes
      simp del: flattenFully.simps simp add: flattenFully_numbers split: if_splits)

lemma drop_concat_uniform:
  assumes "\<And>x. length (f x) = w"
  shows "drop (i * w) (concat (map f xs)) = concat (map f (drop i xs))"
proof (induction xs arbitrary: i)
  case Nil
  then show ?case by simp
next
  case (Cons x xs)
  show ?case
  proof (cases i)
    case 0
    then show ?thesis by simp
  next
    case (Suc j)
    then show ?thesis using Cons [of j] assms [of x] by simp
  qed
qed

lemma length_concat_uniform:
  assumes "\<And>x. length (f x) = w"
  shows "length (concat (map f xs)) = length xs * w"
  by (induction xs) (simp_all add: assms)

lemma entryAt_packed:
  assumes "i < length offsets"
  shows "entryAt w (concat (map (\<lambda>n. leBytes w (int n)) offsets)) i = offsets ! i mod 256 ^ w"
proof -
  have d: "drop (i * w) (concat (map (\<lambda>n. leBytes w (int n)) offsets)) =
        concat (map (\<lambda>n. leBytes w (int n)) (drop i offsets))"
    by (rule drop_concat_uniform) (simp add: length_leBytes)
  from assms obtain rest where r: "drop i offsets = offsets ! i # rest"
    by (metis Cons_nth_drop_Suc)
  show ?thesis
    by (simp add: entryAt_def d r length_leBytes leValue_leBytes_nat)
qed

section \<open>Enumerations in the values buffer\<close>

text \<open>
  Claim C2. On the encoding path every value name of an ENUM property is mapped to the
  integer code that the enum defines for it, and the operation fails with
  UnknownEnumValue when a name has no entry in the enum. The code packs the position of
  the name in the enum's list of values instead, and \<open>-1\<close> for a name that does not
  occur: with the enum A = 10, B = 20 and the default storage type UINT16, the names B
  and C give the two 16-bit entries 1 and 65535 and no error.
\<close>

theorem createValuesBuffer_enum_positions:
  "createValuesBuffer
     \<lparr>type = ''ENUM'', componentType = None, enumType = Some ''testMetadataEnum''\<rparr>
     \<lparr>enums = Some [''testMetadataEnum'' \<mapsto>
        \<lparr>valueType = None,
         enumValues = [\<lparr>name = ''A'', enumValue = 10\<rparr>, \<lparr>name = ''B'', enumValue = 20\<rparr>]\<rparr>]\<rparr>
     [JStr ''B'', JStr ''C'']
     = Inr [1, 0, 255, 255]"
  by (simp add: createValuesBuffer_def flatten_def createBuffer_def createBufferInternal_def
      defaultValue_def toIntegerBytes_def jsTrunc_numerals leBytes_numeral leBytes_1)

section \<open>The offset buffers\<close>

lemma offsetsLoop_cumulative:
  assumes "\<And>v. v \<in> set vs \<Longrightarrow> sz v = Some (g v)"
  shows "offsetsLoop sz vs start =
           Inr (map (\<lambda>k. start + sum_list (map g (take k vs))) [0..<Suc (length vs)])"
  using assms
proof (induction vs arbitrary: start)
  case Nil
  then show ?case by simp
next
  case (Cons v vs)
  have sv: "sz v = Some (g v)" using Cons.prems by simp
  have ih: "offsetsLoop sz vs (start + g v) =
      Inr (map (\<lambda>k. (start + g v) + sum_list (map g (take k vs))) [0..<Suc (length vs)])"
    using Cons.IH Cons.prems by simp
  have "[0..<Suc (Suc (length vs))] = 0 # map Suc [0..<Suc (length vs)]"
    by (metis map_Suc_upt upt_conv_Cons zero_less_Suc)
  then show ?case
    by (simp add: sv ih add.assoc del: upt_Suc)
qed

lemma cumulative_le_total:
  "sum_list (map g (take i vs)) \<le> sum_list (map (g :: 'a \<Rightarrow> nat) vs)"
proof -
  have "sum_list (map g vs) = sum_list (map g (take i vs)) + sum_list (map g (drop i vs))"
    by (metis append_take_drop_id map_append sum_list_append)
  then show ?thesis by simp
qed

lemma cumulative_mono:
  assumes "i < length vs"
  shows "sum_list (map g (take i vs)) \<le> sum_list (map (g :: 'a \<Rightarrow> nat) (take (i + 1) vs))"
  using assms by (simp add: take_Suc_conv_app_nth)

lemma offsetBuffer_entries:
  assumes w: "unsignedWidth offsetType = Some w"
    and sz: "\<And>v. v \<in> set vs \<Longrightarrow> sz v = Some (g v)"
  shows "\<exists>buf.
           (case offsetsLoop sz vs 0 of
              Inl e \<Rightarrow> Inl e
            | Inr offsets \<Rightarrow>
                createBuffer (map (\<lambda>n. JNum (of_nat n)) offsets)
                  (Some (defaultValue offsetType ''UINT32''))) = Inr buf \<and>
           length buf = (length vs + 1) * w \<and>
           (\<forall>i\<le>length vs. entryAt w buf i = sum_list (map g (take i vs)) mod 2 ^ (8 * w)) \<and>
           (sum_list (map g vs) < 2 ^ (8 * w) \<longrightarrow>
              entryAt w buf 0 = 0 \<and>
              (\<forall>i<length vs. entryAt w buf i \<le> entryAt w buf (i + 1)) \<and>
              (\<forall>i\<le>length vs. entryAt w buf i = sum_list (map g (take i vs))))"
proof -
  define offsets where
    "offsets = map (\<lambda>k. sum_list (map g (take k vs))) [0..<Suc (length vs)]"
  define buf where "buf = concat (map (\<lambda>n. leBytes w (int n)) offsets)"
  have p: "(256 :: nat) ^ w = 2 ^ (8 * w)"
    by (simp add: power_mult)
  have loop: "offsetsLoop sz vs 0 = Inr offsets"
    using offsetsLoop_cumulative [of vs sz g 0] sz by (simp add: offsets_def)
  have len: "length offsets = length vs + 1" by (simp add: offsets_def)
  have nth: "offsets ! i = sum_list (map g (take i vs))" if "i \<le> length vs" for i
    using that unfolding offsets_def by (simp add: nth_append del: upt_Suc)
  have res: "(case offsetsLoop sz vs 0 of
              Inl e \<Rightarrow> Inl e
            | Inr offsets \<Rightarrow>
                createBuffer (map (\<lambda>n. JNum (of_nat n)) offsets)
                  (Some (defaultValue offsetType ''UINT32''))) = Inr buf"
    by (simp add: loop buf_def createBuffer_offsets [OF w])
  have blen: "length buf = (length vs + 1) * w"
    unfolding buf_def
    by (subst length_concat_uniform [where w = w]) (simp_all add: length_leBytes len)
  have ent: "entryAt w buf i = sum_list (map g (take i vs)) mod 2 ^ (8 * w)"
    if "i \<le> length vs" for i
    using that entryAt_packed [of i offsets w] by (simp add: buf_def len nth p)
  have small: "entryAt w buf i = sum_list (map g (take i vs))"
    if "i \<le> length vs" "sum_list (map g vs) < 2 ^ (8 * w)" for i
  proof -
    have "sum_list (map g (take i vs)) < 2 ^ (8 * w)"
      using cumulative_le_total [of g i vs] that(2) by linarith
    then show ?thesis using ent [OF that(1)] by simp
  qed
  have mono: "entryAt w buf i \<le> entryAt w buf (i + 1)"
    if "i < length vs" "sum_list (map g vs) < 2 ^ (8 * w)" for i
    using small [of i] small [of "i + 1"] cumulative_mono [of i vs g] that by simp
  have zero: "entryAt w buf 0 = 0" using ent [of 0] by simp
  show ?thesis
    using res blen ent small mono zero by blast
qed

text \<open>
  Claim C5, as stated: every offsets buffer holds the cumulative counts, entry
  \<open>i + 1\<close> never below entry \<open>i\<close>. The entries are packed at the width of the offset
  type and wrap around: two rows of 255 and 2 elements with the offset type UINT8 give
  the entries 0, 255, 1, where the cumulative counts are 0, 255, 257.
\<close>

theorem createArrayOffsetBuffer_wrap_counterexample:
  "createArrayOffsetBuffer [JArr (replicate 255 (JNum 0)), JArr [JNum 0, JNum 0]]
     (Some ''UINT8'') = Inr [0, 255, 1] \<and>
   entryAt 1 [0, 255, 1] 1 = 255 \<and> entryAt 1 [0, 255, 1] 2 = 1 \<and>
   \<not> (entryAt 1 [0, 255, 1] 1 \<le> entryAt 1 [0, 255, 1] 2)"
  by (simp add: createArrayOffsetBuffer_def arrayLength_def createBuffer_def
      createBufferInternal_def defaultValue_def toIntegerBytes_def jsTrunc_numerals
      leBytes_1 entryAt_def)

text \<open>
  Claim C5, amended. For an unsigned offset type of \<open>w\<close> bytes (UINT32 when none is
  given), the array-offsets buffer of a column of arrays has \<open>rowCount + 1\<close> entries of
  \<open>w\<close> bytes, and entry \<open>i\<close> is the number of elements in the rows before \<open>i\<close>, modulo
  \<open>2 ^ (8 w)\<close>. When the total number of elements is below \<open>2 ^ (8 w)\<close>, entry 0 is 0,
  no entry is below its predecessor, and entry \<open>i\<close> is that number itself. The same
  holds for the string-offsets buffer of a column whose leaves are strings, with the
  number of strings for the number of rows and the UTF-8 byte lengths for the element
  counts.
\<close>

theorem offset_buffers_cumulative:
  assumes "unsignedWidth offsetType = Some w"
  shows "(\<exists>buf. createArrayOffsetBuffer (map JArr rows) offsetType = Inr buf \<and>
            length buf = (length rows + 1) * w \<and>
            (\<forall>i\<le>length rows.
               entryAt w buf i = sum_list (map length (take i rows)) mod 2 ^ (8 * w)) \<and>
            (sum_list (map length rows) < 2 ^ (8 * w) \<longrightarrow>
               entryAt w buf 0 = 0 \<and>
               (\<forall>i<length rows. entryAt w buf i \<le> entryAt w buf (i + 1)) \<and>
               (\<forall>i\<le>length rows. entryAt w buf i = sum_list (map length (take i rows))))) \<and>
         (flattenFully (JArr vs) = map JStr strings \<longrightarrow>
          (\<exists>buf. createStringOffsetBuffer vs offsetType = Inr buf \<and>
            length buf = (length strings + 1) * w \<and>
            (\<forall>i\<le>length strings.
               entryAt w buf i =
                 sum_list (map (\<lambda>s. length (encodeUtf8 s)) (take i strings)) mod 2 ^ (8 * w)) \<and>
            (sum_list (map (\<lambda>s. length (encodeUtf8 s)) strings) < 2 ^ (8 * w) \<longrightarrow>
               entryAt w buf 0 = 0 \<and>
               (\<forall>i<length strings. entryAt w buf i \<le> entryAt w buf (i + 1)) \<and>
               (\<forall>i\<le>length strings.
                  entryAt w buf i =
                    sum_list (map (\<lambda>s. length (encodeUtf8 s)) (take i strings))))))"
proof (intro conjI impI)
  define g where "g = (\<lambda>v. case v of JArr xs \<Rightarrow> length xs | _ \<Rightarrow> 0)"
  have sz: "\<And>v. v \<in> set (map JArr rows) \<Longrightarrow> arrayLength v = Some (g v)"
    by (auto simp: arrayLength_def g_def)
  have gl: "g \<circ> JArr = length"
    by (simp add: g_def fun_eq_iff)
  from offsetBuffer_entries [of offsetType w "map JArr rows" arrayLength g, OF assms sz]
  show "\<exists>buf. createArrayOffsetBuffer (map JArr rows) offsetType = Inr buf \<and>
            length buf = (length rows + 1) * w \<and>
            (\<forall>i\<le>length rows.
               entryAt w buf i = sum_list (map length (take i rows)) mod 2 ^ (8 * w)) \<and>
            (sum_list (map length rows) < 2 ^ (8 * w) \<longrightarrow>
               entryAt w buf 0 = 0 \<and>
               (\<forall>i<length rows. entryAt w buf i \<le> entryAt w buf (i + 1)) \<and>
               (\<forall>i\<le>length rows. entryAt w buf i = sum_list (map length (take i rows))))"
    by (simp add: createArrayOffsetBuffer_def gl take_map)
next
  assume f: "flattenFully (JArr vs) = map JStr strings"
  define g where "g = (\<lambda>v. case v of JStr s \<Rightarrow> length (encodeUtf8 s) | _ \<Rightarrow> 0)"
  have sz: "\<And>v. v \<in> set (map JStr strings) \<Longrightarrow> encodedLength v = Some (g v)"
    by (auto simp: encodedLength_def g_def)
  have gl: "g \<circ> JStr = (\<lambda>s. length (encodeUtf8 s))"
    by (simp add: g_def fun_eq_iff)
  from offsetBuffer_entries [of offsetType w "map JStr strings" encodedLength g, OF assms sz]
  show "\<exists>buf. createStringOffsetBuffer vs offsetType = Inr buf \<and>
            length buf = (length strings + 1) * w \<and>
            (\<forall>i\<le>length strings.
               entryAt w buf i =
                 sum_list (map (\<lambda>s. length (encodeUtf8 s)) (take i strings)) mod 2 ^ (8 * w)) \<and>
            (sum_list (map (\<lambda>s. length (encodeUtf8 s)) strings) < 2 ^ (8 * w) \<longrightarrow>
               entryAt w buf 0 = 0 \<and>
               (\<forall>i<length strings. entryAt w buf i \<le> entryAt w buf (i + 1)) \<and>
               (\<forall>i\<le>length strings.
                  entryAt w buf i =
                    sum_list (map (\<lambda>s. length (encodeUtf8 s)) (take i strings))))"
    by (simp add: createStringOffsetBuffer_def f gl take_map del: flattenFully.simps)
qed

theorem offset_buffers_cumulative_witness:
  "unsignedWidth None = Some 4 \<and>
   flattenFully (JArr [JStr ''ab'', JStr ''cde'']) = map JStr [''ab'', ''cde''] \<and>
   sum_list (map (\<lambda>s. length (encodeUtf8 s)) [''ab'', ''cde'']) < 2 ^ (8 * 4) \<and>
   (\<exists>buf. createStringOffsetBuffer [JStr ''ab'', JStr ''cde''] None = Inr buf \<and>
      length buf = 12 \<and>
      entryAt 4 buf 0 = 0 \<and> entryAt 4 buf 1 = 2 \<and> entryAt 4 buf 2 = 5) \<and>
   (\<exists>buf. createArrayOffsetBuffer (map JArr [[JNum 1, JNum 2], [], [JNum 3]]) None = Inr buf \<and>
      length buf = 16 \<and>
      entryAt 4 buf 0 = 0 \<and> entryAt 4 buf 1 = 2 \<and> entryAt 4 buf 2 = 2 \<and>
      entryAt 4 buf 3 = 3)"
proof -
  have w: "unsignedWidth None = Some 4"
    by (simp add: unsignedWidth_def defaultValue_def)
  have f: "flattenFully (JArr [JStr ''ab'', JStr ''cde'']) = map JStr [''ab'', ''cde'']"
    by simp
  have t: "sum_list (map (\<lambda>s. length (encodeUtf8 s)) [''ab'', ''cde'']) < 2 ^ (8 * 4)"
    by (simp add: encodeUtf8_def)
  have a: "sum_list (map length [[JNum 1, JNum 2], [], [JNum 3]]) < 2 ^ (8 * 4)"
    by simp
  from offset_buffers_cumulative
    [OF w, of "[[JNum 1, JNum 2], [], [JNum 3]]" "[JStr ''ab'', JStr ''cde'']" "[''ab'', ''cde'']"]
  obtain bufA bufS where
    A: "createArrayOffsetBuffer (map JArr [[JNum 1, JNum 2], [], [JNum 3]]) None = Inr bufA"
      "length bufA = (length [[JNum 1, JNum 2], [], [JNum 3]] + 1) * 4"
      "\<forall>i\<le>length [[JNum 1, JNum 2], [], [JNum 3]].
         entryAt 4 bufA i = sum_list (map length (take i [[JNum 1, JNum 2], [], [JNum 3]]))"
    and S: "createStringOffsetBuffer [JStr ''ab'', JStr ''cde''] None = Inr bufS"
      "length bufS = (length [''ab'', ''cde''] + 1) * 4"
      "\<forall>i\<le>length [''ab'', ''cde''].
         entryAt 4 bufS i =
           sum_list (map (\<lambda>s. length (encodeUtf8 s)) (take i [''ab'', ''cde'']))"
    using f t a by blast
  have "entryAt 4 bufS 0 = 0 \<and> entryAt 4 bufS 1 = 2 \<and> entryAt 4 bufS 2 = 5"
    using S(3) [rule_format, of 0] S(3) [rule_format, of 1] S(3) [rule_format, of 2]
    by (simp add: encodeUtf8_def)
  moreover have "entryAt 4 bufA 0 = 0 \<and> entryAt 4 bufA 1 = 2 \<and> entryAt 4 bufA 2 = 2 \<and>
      entryAt 4 bufA 3 = 3"
    using A(3) [rule_format, of 0] A(3) [rule_format, of 1] A(3) [rule_format, of 2]
      A(3) [rule_format, of 3]
    by (simp add: take_Suc_conv_app_nth eval_nat_numeral)
  ultimately show ?thesis using w f t A(1,2) S(1,2) by simp
qed

section \<open>The row facade\<close>

text \<open>
  Claim C7, as stated: the lookup by property id fails exactly when one of its three
  lookups fails. A table model whose three lookups succeed but whose property model
  raises on the bound row makes the facade fail as well: the error of the read is passed
  on.
\<close>

theorem getPropertyValue_read_error_counterexample:
  "getPropertyValue (\<lambda>cp off sc v. Inr v)
     \<lparr>propertyTableModel =
        \<lparr>getClassProperty = (\<lambda>p. if p = ''height'' then Some () else None),
         getPropertyTableProperty =
           (\<lambda>p. if p = ''height'' then Some \<lparr>offset = None, scale = None\<rparr> else None),
         getPropertyModel =
           (\<lambda>p. if p = ''height''
                then Some (\<lambda>i. if 0 \<le> i \<and> i < 2 then Inr (7 :: int)
                                else Inl (LibraryError ''ERR_OUT_OF_RANGE''))
                else None)\<rparr>,
      entityIndex = 5,
      semanticToPropertyId = Map.empty\<rparr>
     ''height'' = Inl (LibraryError ''ERR_OUT_OF_RANGE'')"
  by (simp add: getPropertyValue_def)

text \<open>
  Claim C7, amended. The lookup by property id fails with a MetadataError when the
  class does not define the property, else when the property table does not define it,
  else when there is no property model for it. When the three lookups succeed, it reads
  the bound row from the property model and post-processes the value with the class
  property and the table's offset and scale; an error of the read or of the
  post-processing is passed on. The lookup by semantic returns \<open>undefined\<close> without an
  error when the semantic is not mapped, and is the lookup by the mapped property id
  otherwise.
\<close>

theorem getPropertyValue_outcomes:
  "(getClassProperty (propertyTableModel m) p = None \<longrightarrow>
      getPropertyValue pv m p =
        Inl (MetadataError (''The class does not define a property '' @ p))) \<and>
   (getClassProperty (propertyTableModel m) p = Some cp \<and>
    getPropertyTableProperty (propertyTableModel m) p = None \<longrightarrow>
      getPropertyValue pv m p =
        Inl (MetadataError (''The property table does not define a property '' @ p))) \<and>
   (getClassProperty (propertyTableModel m) p = Some cp \<and>
    getPropertyTableProperty (propertyTableModel m) p = Some ptp \<and>
    getPropertyModel (propertyTableModel m) p = None \<longrightarrow>
      getPropertyValue pv m p =
        Inl (MetadataError
               (''The property table does not define a property model for '' @ p))) \<and>
   (getClassProperty (propertyTableModel m) p = Some cp \<and>
    getPropertyTableProperty (propertyTableModel m) p = Some ptp \<and>
    getPropertyModel (propertyTableModel m) p = Some pm \<longrightarrow>
      getPropertyValue pv m p =
        (case pm (entityIndex m) of
           Inl e \<Rightarrow> Inl e
         | Inr v \<Rightarrow> pv cp (offset ptp) (scale ptp) v)) \<and>
   (semanticToPropertyId m s = None \<longrightarrow> getPropertyValueBySemantic pv m s = Inr None) \<and>
   (semanticToPropertyId m s = Some p \<longrightarrow>
      getPropertyValueBySemantic pv m s = map_sum id Some (getPropertyValue pv m p))"
  by (auto simp: getPropertyValue_def getPropertyValueBySemantic_def split: sum.splits)

theorem getPropertyValue_outcomes_witness:
  "getClassProperty (propertyTableModel sampleEntityModel) ''width'' = None \<and>
   getPropertyValue sampleProcessValue sampleEntityModel ''width'' =
     Inl (MetadataError ''The class does not define a property width'') \<and>
   getPropertyValue sampleProcessValue sampleEntityModel ''depth'' =
     Inl (MetadataError ''The property table does not define a property depth'') \<and>
   getPropertyValue sampleProcessValue sampleEntityModel ''age'' =
     Inl (MetadataError ''The property table does not define a property model for age'') \<and>
   getPropertyValue sampleProcessValue sampleEntityModel ''height'' = Inr 19 \<and>
   semanticToPropertyId sampleEntityModel ''NAME'' = None \<and>
   getPropertyValueBySemantic sampleProcessValue sampleEntityModel ''NAME'' = Inr None \<and>
   semanticToPropertyId sampleEntityModel ''HEIGHT'' = Some ''height'' \<and>
   getPropertyValueBySemantic sampleProcessValue sampleEntityModel ''HEIGHT'' = Inr (Some 19)"
  using getPropertyValue_outcomes
      [of sampleEntityModel "''width''" sampleProcessValue _ _ _ "''NAME''"]
    getPropertyValue_outcomes
      [of sampleEntityModel "''depth''" sampleProcessValue "()"]
    getPropertyValue_outcomes
      [of sampleEntityModel "''age''" sampleProcessValue "()"
          "\<lparr>offset = None, scale = None\<rparr>"]
    getPropertyValue_outcomes
      [of sampleEntityModel "''height''" sampleProcessValue "()"
          "\<lparr>offset = Some 10, scale = None\<rparr>"
          "\<lambda>i. if i = 0 then Inr 7 else if i = 1 then Inr 9
               else Inl (LibraryError ''ERR_OUT_OF_RANGE'')"
          "''HEIGHT''"]
  by (simp add: sampleEntityModel_def sampleProcessValue_def)

end
